theory Spec2Isabelle
  imports Complex_Main "HOL-Library.AList"
begin

section \<open>Numbers and configuration\<close>

text \<open>
  Python floats are modelled as exact rationals: the scoring formulas are read as the
  arithmetic they denote, without binary rounding error.  \<open>round(x)\<close> and
  \<open>round(x, n)\<close> round half to even.
\<close>

definition py_round :: "rat \<Rightarrow> int" where
  "py_round x =
     (let f = \<lfloor>x\<rfloor>; d = x - of_int f
      in if d < 1 / 2 then f else if 1 / 2 < d then f + 1
         else if even f then f else f + 1)"

definition py_round_n :: "nat \<Rightarrow> rat \<Rightarrow> rat" where
  "py_round_n n x = of_int (py_round (x * 10 ^ n)) / 10 ^ n"

text \<open>The thresholds of \<open>config.py\<close> (class \<open>Config\<close>).\<close>

definition OPTIMAL_SLEEP_DURATION_MIN :: rat where
  "OPTIMAL_SLEEP_DURATION_MIN = 7"

definition OPTIMAL_SLEEP_DURATION_MAX :: rat where
  "OPTIMAL_SLEEP_DURATION_MAX = 9"

definition MIN_SLEEP_DURATION :: rat where
  "MIN_SLEEP_DURATION = 1 / 2"

definition MAX_SLEEP_DURATION :: rat where
  "MAX_SLEEP_DURATION = 16"

section \<open>Sessions\<close>

text \<open>
  A session is a Python dict.  Each key the code reads is a field holding \<open>None\<close> when
  the key is absent and a value of the type the code computes with otherwise: durations,
  efficiency scores and moods are numbers, bedtime, waketime and session id are strings,
  \<open>interruptions\<close> is a list.  \<open>session_date\<close> is a string or a datetime object.
\<close>

record datetime =
  stamp :: int   \<comment> \<open>microseconds of the wall-clock reading since 1970-01-01T00:00:00\<close>
  utcoffset :: "int option"   \<comment> \<open>\<open>None\<close> for a naive datetime, the offset for an aware one\<close>

datatype date_field = DateStr string | DateObj datetime

record session =
  session_id :: "string option"
  session_date :: "date_field option"
  bedtime :: "string option"
  waketime :: "string option"
  duration_hours :: "rat option"
  efficiency_score :: "rat option"
  interruptions :: "string list option"
  morning_mood :: "rat option"

text \<open>Truthiness of \<open>s.get(key)\<close>: a missing key, the number 0 and the empty string are falsy.\<close>

fun truthy_num :: "rat option \<Rightarrow> bool" where
  "truthy_num None = False"
| "truthy_num (Some x) = (x \<noteq> 0)"

fun truthy_str :: "string option \<Rightarrow> bool" where
  "truthy_str None = False"
| "truthy_str (Some s) = (s \<noteq> [])"

text \<open>The comprehension \<open>[s.get(key, 0) for s in sessions if s.get(key)]\<close>.\<close>

definition truthy_nums :: "(session \<Rightarrow> rat option) \<Rightarrow> session list \<Rightarrow> rat list" where
  "truthy_nums field sessions = map (\<lambda>s. the (field s)) (filter (\<lambda>s. truthy_num (field s)) sessions)"

definition truthy_strs :: "(session \<Rightarrow> string option) \<Rightarrow> session list \<Rightarrow> string list" where
  "truthy_strs field sessions = map (\<lambda>s. the (field s)) (filter (\<lambda>s. truthy_str (field s)) sessions)"

text \<open>\<open>sum(xs) / len(xs)\<close>, \<open>min(xs)\<close> and \<open>max(xs)\<close>, called on non-empty lists only.\<close>

definition mean :: "rat list \<Rightarrow> rat" where
  "mean xs = sum_list xs / of_nat (length xs)"

definition py_min :: "rat list \<Rightarrow> rat" where
  "py_min xs = fold min (tl xs) (hd xs)"

definition py_max :: "rat list \<Rightarrow> rat" where
  "py_max xs = fold max (tl xs) (hd xs)"

text \<open>\<open>session.get('interruptions', [])\<close> followed by \<open>len\<close>.\<close>

definition interruption_count :: "session \<Rightarrow> nat" where
  "interruption_count s = (case interruptions s of None \<Rightarrow> 0 | Some xs \<Rightarrow> length xs)"

section \<open>Analyzer\<close>

record duration_stats =
  d_average :: rat
  d_minimum :: rat
  d_maximum :: rat
  optimal_count :: nat
  too_short_count :: nat
  too_long_count :: nat
  d_total_sessions :: nat
  is_optimal :: bool

text \<open>
  The dict under \<open>'duration_analysis'\<close>: empty (\<open>{}\<close>) when \<open>d_stats\<close> and
  \<open>d_ltm_average\<close> are both \<open>None\<close>; the reasoning node may add \<open>'ltm_average'\<close>.
\<close>

record duration_analysis =
  d_stats :: "duration_stats option"
  d_ltm_average :: "rat option"

record consistency_stats =
  bedtime_consistency :: rat
  waketime_consistency :: rat
  overall_consistency :: rat
  unique_bedtimes :: nat
  unique_waketimes :: nat

record efficiency_stats =
  e_average :: rat
  e_minimum :: rat
  e_maximum :: rat
  excellent_count :: nat
  good_count :: nat
  fair_count :: nat
  poor_count :: nat
  is_efficient :: bool

record efficiency_analysis =
  e_stats :: "efficiency_stats option"
  e_ltm_average :: "rat option"

record interruption_stats =
  total_interruptions :: nat
  sessions_with_interruptions :: nat
  average_per_session :: rat
  interruption_rate :: rat

definition analyze_duration :: "session list \<Rightarrow> duration_analysis" where
  "analyze_duration sessions =
     (let durations = truthy_nums duration_hours sessions
      in if durations = [] then \<lparr>d_stats = None, d_ltm_average = None\<rparr>
         else
           let avg_duration = mean durations;
               min_duration = py_min durations;
               max_duration = py_max durations;
               optimal = length (filter (\<lambda>d. OPTIMAL_SLEEP_DURATION_MIN \<le> d \<and> d \<le> OPTIMAL_SLEEP_DURATION_MAX) durations);
               too_short = length (filter (\<lambda>d. d < OPTIMAL_SLEEP_DURATION_MIN) durations);
               too_long = length (filter (\<lambda>d. OPTIMAL_SLEEP_DURATION_MAX < d) durations)
           in \<lparr>d_stats = Some \<lparr>d_average = py_round_n 2 avg_duration,
                                d_minimum = py_round_n 2 min_duration,
                                d_maximum = py_round_n 2 max_duration,
                                optimal_count = optimal,
                                too_short_count = too_short,
                                too_long_count = too_long,
                                d_total_sessions = length durations,
                                is_optimal = (OPTIMAL_SLEEP_DURATION_MIN \<le> avg_duration
                                              \<and> avg_duration \<le> OPTIMAL_SLEEP_DURATION_MAX)\<rparr>,
               d_ltm_average = None\<rparr>)"

text \<open>
  \<open>1.0 - (unique - 1) / len(values) if len(values) > 1 else 1.0\<close>, with
  \<open>unique = len(set(values))\<close>.
\<close>

definition consistency_of :: "string list \<Rightarrow> rat" where
  "consistency_of values =
     (if 1 < length values
      then 1 - (of_nat (length (remdups values)) - 1) / of_nat (length values)
      else 1)"

definition analyze_consistency :: "session list \<Rightarrow> consistency_stats" where
  "analyze_consistency sessions =
     (let bedtimes = truthy_strs bedtime sessions;
          waketimes = truthy_strs waketime sessions;
          bedtime_c = (if bedtimes \<noteq> [] then max 0 (consistency_of bedtimes) else 0);
          waketime_c = (if waketimes \<noteq> [] then max 0 (consistency_of waketimes) else 0)
      in \<lparr>bedtime_consistency = py_round_n 2 bedtime_c,
          waketime_consistency = py_round_n 2 waketime_c,
          overall_consistency =
            (if bedtimes \<noteq> [] \<and> waketimes \<noteq> [] then py_round_n 2 ((bedtime_c + waketime_c) / 2) else 0),
          unique_bedtimes = (if bedtimes \<noteq> [] then length (remdups bedtimes) else 0),
          unique_waketimes = (if waketimes \<noteq> [] then length (remdups waketimes) else 0)\<rparr>)"

definition analyze_efficiency :: "session list \<Rightarrow> efficiency_analysis" where
  "analyze_efficiency sessions =
     (let efficiency_scores = truthy_nums efficiency_score sessions
      in if efficiency_scores = [] then \<lparr>e_stats = None, e_ltm_average = None\<rparr>
         else
           let avg_efficiency = mean efficiency_scores;
               min_efficiency = py_min efficiency_scores;
               max_efficiency = py_max efficiency_scores
           in \<lparr>e_stats = Some \<lparr>e_average = py_round_n 2 avg_efficiency,
                                e_minimum = py_round_n 2 min_efficiency,
                                e_maximum = py_round_n 2 max_efficiency,
                                excellent_count = length (filter (\<lambda>e. 85 \<le> e) efficiency_scores),
                                good_count = length (filter (\<lambda>e. 70 \<le> e \<and> e < 85) efficiency_scores),
                                fair_count = length (filter (\<lambda>e. 50 \<le> e \<and> e < 70) efficiency_scores),
                                poor_count = length (filter (\<lambda>e. e < 50) efficiency_scores),
                                is_efficient = (70 \<le> avg_efficiency)\<rparr>,
               e_ltm_average = None\<rparr>)"

definition analyze_interruptions :: "session list \<Rightarrow> interruption_stats" where
  "analyze_interruptions sessions =
     (let total = sum_list (map interruption_count sessions);
          with_interruptions = length (filter (\<lambda>s. 0 < interruption_count s) sessions);
          avg_interruptions = (if sessions \<noteq> [] then of_nat total / of_nat (length sessions) else 0)
      in \<lparr>total_interruptions = total,
          sessions_with_interruptions = with_interruptions,
          average_per_session = py_round_n 2 avg_interruptions,
          interruption_rate =
            (if sessions \<noteq> [] then py_round_n 2 (of_nat with_interruptions / of_nat (length sessions)) else 0)\<rparr>)"

text \<open>Values of open-ended maps (stored preferences), as the documents of the store hold them.\<close>

datatype json = JNull | JBool bool | JNum rat | JStr string | JArr "json list" | JObj "(string \<times> json) list"

text \<open>
  Functions of the Python library that the code calls and this development does not
  define: they are parameters of the model.  \<open>fromisoformat\<close> and \<open>strptime_ymd\<close>
  return \<open>None\<close> where Python raises \<open>ValueError\<close>; the others render a value as text
  (\<open>str(d)\<close> of a datetime, \<open>f'{x:.1f}'\<close>, \<open>f'{x:.0f}'\<close>, \<open>f'{x}'\<close> of a number as
  the request gave it, \<open>f'{x}'\<close> of a float).
\<close>

record pylib =
  fromisoformat :: "string \<Rightarrow> datetime option"
  strptime_ymd :: "string \<Rightarrow> datetime option"
  str_datetime :: "datetime \<Rightarrow> string"
  fmt_1f :: "rat \<Rightarrow> string"
  fmt_0f :: "rat \<Rightarrow> string"
  str_num :: "rat \<Rightarrow> string"
  str_float :: "rat \<Rightarrow> string"

text \<open>
  The profile dict: the keys the code reads, \<open>None\<close> when absent; \<open>p_other\<close> lists
  any further keys, which only matter for the truthiness of the dict.
\<close>

record profile =
  age :: "int option"
  work_schedule :: "string option"
  caffeine_intake :: "string option"
  caffeine_after_8pm :: "bool option"
  screen_time :: "rat option"
  exercise :: "string option"
  stress_level :: "int option"
  avg_sleep_duration :: "rat option"
  preferred_duration :: "json option"
  preferred_bedtime :: "json option"
  p_other :: "string list"

definition empty_profile :: profile where
  "empty_profile =
     \<lparr>age = None, work_schedule = None, caffeine_intake = None, caffeine_after_8pm = None,
      screen_time = None, exercise = None, stress_level = None, avg_sleep_duration = None,
      preferred_duration = None, preferred_bedtime = None, p_other = []\<rparr>"

text \<open>\<open>if profile:\<close> on a dict that is not \<open>None\<close>: true when it has a key.\<close>

definition profile_truthy :: "profile \<Rightarrow> bool" where
  "profile_truthy p = (p \<noteq> empty_profile)"

definition SCREEN_TIME_WARNING_HOURS :: rat where
  "SCREEN_TIME_WARNING_HOURS = 2"

record caffeine_stats =
  c_caffeine_intake :: string
  c_caffeine_after_8pm :: bool
  c_avg_sleep_efficiency :: "rat option"
  c_potential_impact :: bool

record screen_time_stats =
  screen_time_hours :: rat
  st_avg_sleep_efficiency :: "rat option"
  st_potential_impact :: bool
  st_recommendation :: "string option"

record exercise_stats =
  exercise_frequency :: string
  has_regular_exercise :: bool
  ex_recommendation :: string

text \<open>
  The analysis dict.  A sub-analysis is \<open>None\<close> when its key is absent; for the
  consistency, interruption, caffeine, screen-time and exercise entries \<open>Some None\<close> is
  the empty dict \<open>{}\<close>.
\<close>

record analysis =
  duration_analysis :: "duration_analysis option"
  consistency_analysis :: "consistency_stats option option"
  efficiency_analysis :: "efficiency_analysis option"
  interruption_analysis :: "interruption_stats option option"
  caffeine_analysis :: "caffeine_stats option option"
  screen_time_analysis :: "screen_time_stats option option"
  exercise_analysis :: "exercise_stats option option"
  issues :: "string list option"
  summary :: "string option"
  ltm_patterns_ctx :: bool   \<comment> \<open>whether the reasoning node attached \<open>'ltm_patterns'\<close>\<close>

definition analyze_caffeine_timing :: "session list \<Rightarrow> profile \<Rightarrow> caffeine_stats option" where
  "analyze_caffeine_timing sessions p =
     (if \<not> profile_truthy p then None
      else
        let intake = (case caffeine_intake p of None \<Rightarrow> ''none'' | Some c \<Rightarrow> c);
            after_8pm = (case caffeine_after_8pm p of None \<Rightarrow> False | Some b \<Rightarrow> b);
            efficiency_scores = truthy_nums efficiency_score sessions
        in if (after_8pm \<or> intake \<in> set [''medium'', ''high'']) \<and> efficiency_scores \<noteq> []
           then Some \<lparr>c_caffeine_intake = intake, c_caffeine_after_8pm = after_8pm,
                      c_avg_sleep_efficiency = Some (py_round_n 2 (mean efficiency_scores)),
                      c_potential_impact = (mean efficiency_scores < 75)\<rparr>
           else Some \<lparr>c_caffeine_intake = intake, c_caffeine_after_8pm = after_8pm,
                      c_avg_sleep_efficiency = None, c_potential_impact = False\<rparr>)"

definition analyze_screen_time :: "pylib \<Rightarrow> session list \<Rightarrow> profile \<Rightarrow> screen_time_stats option" where
  "analyze_screen_time lib sessions p =
     (if \<not> profile_truthy p then None
      else
        let st = (case screen_time p of None \<Rightarrow> 0 | Some h \<Rightarrow> h);
            efficiency_scores = truthy_nums efficiency_score sessions
        in if SCREEN_TIME_WARNING_HOURS < st \<and> efficiency_scores \<noteq> []
           then Some \<lparr>screen_time_hours = st,
                      st_avg_sleep_efficiency = Some (py_round_n 2 (mean efficiency_scores)),
                      st_potential_impact = (mean efficiency_scores < 75),
                      st_recommendation =
                        Some (''Reduce screen time before bed (currently '' @ str_num lib st @ '' hours)'')\<rparr>
           else Some \<lparr>screen_time_hours = st, st_avg_sleep_efficiency = None,
                      st_potential_impact = False, st_recommendation = None\<rparr>)"

definition analyze_exercise_timing :: "profile \<Rightarrow> exercise_stats option" where
  "analyze_exercise_timing p =
     (if \<not> profile_truthy p then None
      else
        let ex = (case exercise p of None \<Rightarrow> ''rarely'' | Some e \<Rightarrow> e)
        in Some \<lparr>exercise_frequency = ex,
                 has_regular_exercise = (ex \<in> set [''daily'', ''3-4-times'']),
                 ex_recommendation =
                   (if ex = ''rarely'' then ''Incorporate regular exercise''
                    else ''Maintain exercise routine'')\<rparr>)"

text \<open>
  \<open>_identify_issues\<close>, on the sub-analyses that \<open>analyze\<close> has just computed.  An empty
  \<open>duration_analysis\<close> is falsy; a \<open>.get\<close> on an empty dict gives its default.
\<close>

definition identify_issues ::
  "pylib \<Rightarrow> duration_analysis \<Rightarrow> consistency_stats \<Rightarrow> efficiency_analysis \<Rightarrow> interruption_stats
   \<Rightarrow> caffeine_stats option \<Rightarrow> screen_time_stats option \<Rightarrow> string list" where
  "identify_issues lib da ca ea ia caf scr =
     (case d_stats da of
        None \<Rightarrow> []
      | Some st \<Rightarrow>
          (if d_average st < OPTIMAL_SLEEP_DURATION_MIN
           then [''Average sleep duration is too short ('' @ fmt_1f lib (d_average st)
                 @ '' hours). Aim for 7-9 hours.'']
           else if OPTIMAL_SLEEP_DURATION_MAX < d_average st
           then [''Average sleep duration is too long ('' @ fmt_1f lib (d_average st)
                 @ '' hours). Consider if you need this much sleep.'']
           else []))
     @ (if overall_consistency ca < 6 / 10
        then [''Sleep schedule is inconsistent. Try maintaining the same bedtime and wake time.'']
        else [])
     @ (case e_stats ea of
          None \<Rightarrow> []
        | Some st \<Rightarrow>
            (if e_average st < 70
             then [''Sleep efficiency is low ('' @ fmt_0f lib (e_average st)
                   @ ''%). Focus on improving sleep quality.'']
             else []))
     @ (if 1 / 2 < interruption_rate ia
        then [''Frequent sleep interruptions detected. Consider optimizing your sleep environment.'']
        else [])
     @ (case caf of
          None \<Rightarrow> []
        | Some c \<Rightarrow>
            (if c_potential_impact c
             then [''Caffeine intake may be affecting sleep quality. Avoid caffeine after 8 PM.'']
             else []))
     @ (case scr of
          None \<Rightarrow> []
        | Some s \<Rightarrow>
            (if st_potential_impact s
             then [case st_recommendation s of
                     None \<Rightarrow> ''Reduce screen time before bed.'' | Some r \<Rightarrow> r]
             else []))"

text \<open>\<open>". ".join(parts)\<close>.\<close>

fun join :: "string \<Rightarrow> string list \<Rightarrow> string" where
  "join sep [] = []"
| "join sep [x] = x"
| "join sep (x # y # ys) = x @ sep @ join sep (y # ys)"

definition generate_summary :: "pylib \<Rightarrow> duration_analysis \<Rightarrow> consistency_stats \<Rightarrow> efficiency_analysis \<Rightarrow> string" where
  "generate_summary lib da ca ea =
     (let summary_parts =
            (case d_stats da of
               None \<Rightarrow> []
             | Some st \<Rightarrow>
                 (if d_average st \<noteq> 0
                  then [''Average sleep duration: '' @ fmt_1f lib (d_average st) @ '' hours'']
                  else []))
            @ (case e_stats ea of
                 None \<Rightarrow> []
               | Some st \<Rightarrow>
                   (if e_average st \<noteq> 0
                    then [''Average efficiency: '' @ fmt_0f lib (e_average st) @ ''%'']
                    else []))
            @ (if overall_consistency ca \<noteq> 0
               then [''Schedule consistency: '' @ fmt_0f lib (overall_consistency ca * 100) @ ''%'']
               else [])
      in if summary_parts \<noteq> [] then join ''. '' summary_parts @ ''.''
         else ''Sleep analysis completed.'')"

text \<open>\<open>SleepAnalyzer.analyze\<close>; the profile argument is a dict (the nodes pass \<open>{}\<close> when the payload has none).\<close>

definition analyze :: "pylib \<Rightarrow> session list \<Rightarrow> profile \<Rightarrow> analysis" where
  "analyze lib sessions p =
     (if sessions = []
      then \<lparr>duration_analysis = Some \<lparr>d_stats = None, d_ltm_average = None\<rparr>,
            consistency_analysis = Some None,
            efficiency_analysis = Some \<lparr>e_stats = None, e_ltm_average = None\<rparr>,
            interruption_analysis = Some None,
            caffeine_analysis = None,
            screen_time_analysis = None,
            exercise_analysis = None,
            issues = Some [''No sleep data available''],
            summary = Some ''No sleep sessions found for analysis'',
            ltm_patterns_ctx = False\<rparr>
      else
        let da = analyze_duration sessions;
            ca = analyze_consistency sessions;
            ea = analyze_efficiency sessions;
            ia = analyze_interruptions sessions;
            caf = analyze_caffeine_timing sessions p;
            scr = analyze_screen_time lib sessions p;
            exr = analyze_exercise_timing p
        in \<lparr>duration_analysis = Some da,
            consistency_analysis = Some (Some ca),
            efficiency_analysis = Some ea,
            interruption_analysis = Some (Some ia),
            caffeine_analysis = Some caf,
            screen_time_analysis = Some scr,
            exercise_analysis = Some exr,
            issues = Some (identify_issues lib da ca ea ia caf scr),
            summary = Some (generate_summary lib da ca ea),
            ltm_patterns_ctx = False\<rparr>)"

section \<open>Scorer\<close>

text \<open>
  Lines 75--87 of \<open>SleepScorer._score_duration\<close>: the piecewise map from the mean
  duration to the sub-score.
\<close>

definition duration_score_of :: "rat \<Rightarrow> rat" where
  "duration_score_of avg_duration =
     (if OPTIMAL_SLEEP_DURATION_MIN \<le> avg_duration \<and> avg_duration \<le> OPTIMAL_SLEEP_DURATION_MAX
      then 100
      else if avg_duration < OPTIMAL_SLEEP_DURATION_MIN
      then (let ratio = avg_duration / OPTIMAL_SLEEP_DURATION_MIN in max 0 (ratio * 100))
      else (let excess = avg_duration - OPTIMAL_SLEEP_DURATION_MAX;
                max_excess = MAX_SLEEP_DURATION - OPTIMAL_SLEEP_DURATION_MAX;
                ratio = (if 0 < max_excess then 1 - excess / max_excess else 0)
            in max 0 (ratio * 100)))"


text \<open>
  In the four \<open>_score_*\<close> functions the test \<open>analysis and key in analysis\<close> is the
  test that the key is present: a dict holding the key is not empty.
\<close>

definition score_duration :: "session list \<Rightarrow> analysis option \<Rightarrow> rat" where
  "score_duration sessions a =
     (case (case a of None \<Rightarrow> None | Some an \<Rightarrow> duration_analysis an) of
        Some da \<Rightarrow>
          duration_score_of (case d_stats da of None \<Rightarrow> 0 | Some st \<Rightarrow> d_average st)
      | None \<Rightarrow>
          (let durations = truthy_nums duration_hours sessions
           in if durations = [] then 0 else duration_score_of (mean durations)))"

definition score_consistency :: "session list \<Rightarrow> analysis option \<Rightarrow> rat" where
  "score_consistency sessions a =
     (case (case a of None \<Rightarrow> None | Some an \<Rightarrow> consistency_analysis an) of
        Some ca \<Rightarrow> (case ca of None \<Rightarrow> 0 | Some st \<Rightarrow> overall_consistency st) * 100
      | None \<Rightarrow>
          (let bedtimes = truthy_strs bedtime sessions;
               waketimes = truthy_strs waketime sessions
           in if bedtimes = [] \<or> waketimes = [] then 50
              else (consistency_of bedtimes + consistency_of waketimes) / 2 * 100))"

definition score_efficiency :: "session list \<Rightarrow> analysis option \<Rightarrow> rat" where
  "score_efficiency sessions a =
     (case (case a of None \<Rightarrow> None | Some an \<Rightarrow> efficiency_analysis an) of
        Some ea \<Rightarrow> (case e_stats ea of None \<Rightarrow> 0 | Some st \<Rightarrow> e_average st)
      | None \<Rightarrow>
          (let efficiency_scores = truthy_nums efficiency_score sessions
           in if efficiency_scores = [] then 50 else mean efficiency_scores))"

definition score_interruptions :: "session list \<Rightarrow> analysis option \<Rightarrow> rat" where
  "score_interruptions sessions a =
     (let avg_interruptions =
            (case (case a of None \<Rightarrow> None | Some an \<Rightarrow> interruption_analysis an) of
               Some ia \<Rightarrow> (case ia of None \<Rightarrow> 0 | Some st \<Rightarrow> average_per_session st)
             | None \<Rightarrow>
                 (if sessions \<noteq> []
                  then of_nat (sum_list (map interruption_count sessions)) / of_nat (length sessions)
                  else 0))
      in if avg_interruptions = 0 then 100
         else if avg_interruptions \<le> 1 then 80
         else if avg_interruptions \<le> 2 then 60
         else if avg_interruptions \<le> 3 then 40
         else max 0 (100 - avg_interruptions * 20))"

definition calculate_confidence :: "session list \<Rightarrow> rat" where
  "calculate_confidence sessions =
     (if sessions = [] then 0
      else
        let session_count_confidence = min 1 (of_nat (length sessions) / 7);
            complete_sessions =
              length (filter (\<lambda>s. truthy_num (duration_hours s) \<and> truthy_str (bedtime s)
                                   \<and> truthy_str (waketime s)) sessions);
            completeness_confidence = of_nat complete_sessions / of_nat (length sessions);
            has_efficiency =
              of_nat (length (filter (\<lambda>s. truthy_num (efficiency_score s)) sessions))
                / of_nat (length sessions);
            confidence = session_count_confidence * (4 / 10) + completeness_confidence * (4 / 10)
                           + has_efficiency * (2 / 10)
        in min 1 (max 0 confidence))"

record breakdown =
  duration_score :: rat
  consistency_score :: rat
  bd_efficiency_score :: rat
  interruption_score :: rat

record score_result =
  sleep_score :: int
  confidence :: rat
  breakdown :: "breakdown option"   \<comment> \<open>\<open>None\<close> for the empty dict\<close>

definition calculate_score :: "session list \<Rightarrow> analysis option \<Rightarrow> score_result" where
  "calculate_score sessions a =
     (if sessions = [] then \<lparr>sleep_score = 0, confidence = 0, breakdown = None\<rparr>
      else
        let ds = score_duration sessions a;
            cs = score_consistency sessions a;
            es = score_efficiency sessions a;
            is = score_interruptions sessions a;
            overall_score = ds * (3 / 10) + cs * (25 / 100) + es * (3 / 10) + is * (15 / 100);
            conf = calculate_confidence sessions
        in \<lparr>sleep_score = py_round overall_score,
            confidence = py_round_n 2 conf,
            breakdown = Some \<lparr>duration_score = py_round_n 1 ds,
                               consistency_score = py_round_n 1 cs,
                               bd_efficiency_score = py_round_n 1 es,
                               interruption_score = py_round_n 1 is\<rparr>\<rparr>)"

text \<open>
  Scenario A: seven sessions of 8 hours, no interruptions, the same bedtime and waketime,
  no efficiency score.
\<close>

definition scenario_session :: session where
  "scenario_session =
     \<lparr>session_id = None, session_date = None, bedtime = Some ''22:00'', waketime = Some ''06:00'',
      duration_hours = Some 8, efficiency_score = None, interruptions = Some [],
      morning_mood = None\<rparr>"

definition scenario_sessions :: "session list" where
  "scenario_sessions = replicate 7 scenario_session"

section \<open>The persistent store\<close>

text \<open>
  The persistent store is a map from user id to the stored document, one map per memory
  kind, together with the log of the accesses made: every \<open>get_memory\<close> appends a
  \<open>Read\<close>, every \<open>save_memory\<close> a \<open>Write\<close>.  The store itself never fails here;
  database errors are outside the model.
\<close>

datatype memory_type = STM | LTM

datatype access = Read string memory_type | Write string memory_type

record stm_data =
  stored_sessions :: "session list"
  stm_last_updated :: int
  stm_count :: nat

record pattern =
  p_type :: string
  p_description :: string
  p_confidence :: rat

text \<open>
  The recommendations dict.  Its six advice sections (sleep window, caffeine cutoff, light,
  environment, wind-down, weekly plan) are not modelled beyond their presence: no property
  below reads them.  The empty dict \<open>{}\<close> has no sections and no tips.
\<close>

record recommendations =
  advice_sections :: bool
  rec_personalized_tips :: "string list option"

definition empty_recommendations :: recommendations where
  "empty_recommendations = \<lparr>advice_sections = False, rec_personalized_tips = None\<rparr>"

text \<open>The long-term document: each key \<open>None\<close> when absent.\<close>

record ltm_data =
  ltm_trends :: "(string \<rightharpoonup> rat) option"
  ltm_patterns :: "pattern list option"
  ltm_preferences :: "(string \<rightharpoonup> json) option"
  ltm_recommendations :: "recommendations option"
  ltm_sleep_score :: "int option"
  ltm_confidence :: "rat option"
  ltm_personalized_tips :: "string list option"
  ltm_issues :: "string list option"
  ltm_last_updated :: "int option"
  total_sessions_analyzed :: "nat option"

definition empty_ltm :: ltm_data where
  "empty_ltm =
     \<lparr>ltm_trends = None, ltm_patterns = None, ltm_preferences = None, ltm_recommendations = None,
      ltm_sleep_score = None, ltm_confidence = None, ltm_personalized_tips = None,
      ltm_issues = None, ltm_last_updated = None, total_sessions_analyzed = None\<rparr>"

record storage =
  stm_docs :: "string \<rightharpoonup> stm_data"
  ltm_docs :: "string \<rightharpoonup> ltm_data"
  access_log :: "access list"

definition empty_storage :: storage where
  "empty_storage = \<lparr>stm_docs = Map.empty, ltm_docs = Map.empty, access_log = []\<rparr>"

text \<open>\<open>storage.get_memory\<close> and \<open>storage.save_memory\<close> (an upsert), per memory kind.\<close>

definition get_memory_stm :: "storage \<Rightarrow> string \<Rightarrow> stm_data option \<times> storage" where
  "get_memory_stm st user =
     (stm_docs st user, st\<lparr>access_log := access_log st @ [Read user STM]\<rparr>)"

definition save_memory_stm :: "storage \<Rightarrow> string \<Rightarrow> stm_data \<Rightarrow> storage" where
  "save_memory_stm st user d =
     st\<lparr>stm_docs := (stm_docs st)(user \<mapsto> d), access_log := access_log st @ [Write user STM]\<rparr>"

definition get_memory_ltm :: "storage \<Rightarrow> string \<Rightarrow> ltm_data option \<times> storage" where
  "get_memory_ltm st user =
     (ltm_docs st user, st\<lparr>access_log := access_log st @ [Read user LTM]\<rparr>)"

definition save_memory_ltm :: "storage \<Rightarrow> string \<Rightarrow> ltm_data \<Rightarrow> storage" where
  "save_memory_ltm st user d =
     st\<lparr>ltm_docs := (ltm_docs st)(user \<mapsto> d), access_log := access_log st @ [Write user LTM]\<rparr>"

section \<open>Short-term memory\<close>

datatype stm_error = TypeError

definition DAY :: int where
  "DAY = 86400000000"   \<comment> \<open>\<open>timedelta(days=1)\<close> in microseconds\<close>

definition DATETIME_MIN :: int where
  "DATETIME_MIN = - 62135596800000000"   \<comment> \<open>\<open>datetime.min\<close>, 0001-01-01T00:00:00\<close>

text \<open>\<open>session_date.replace('Z', '+00:00')\<close>.\<close>

definition replace_Z :: "string \<Rightarrow> string" where
  "replace_Z s = concat (map (\<lambda>c. if c = CHR ''Z'' then ''+00:00'' else [c]) s)"

definition parse_session_date :: "pylib \<Rightarrow> session \<Rightarrow> datetime option" where
  "parse_session_date lib s =
     (case session_date s of
        None \<Rightarrow> None
      | Some (DateObj d) \<Rightarrow> Some d
      | Some (DateStr str) \<Rightarrow>
          (if str = [] then None
           else case fromisoformat lib (replace_Z str) of
                  Some d \<Rightarrow> Some d
                | None \<Rightarrow> strptime_ymd lib str))"

text \<open>
  \<open>_generate_session_id\<close>: the f-string \<open>f"{session_date}_{bedtime}_{waketime}"\<close>, each
  part \<open>''\<close> when the key is absent.
\<close>

definition generate_session_id :: "pylib \<Rightarrow> session \<Rightarrow> string" where
  "generate_session_id lib s =
     (case session_date s of None \<Rightarrow> [] | Some (DateStr str) \<Rightarrow> str
                            | Some (DateObj d) \<Rightarrow> str_datetime lib d)
     @ ''_'' @ (case bedtime s of None \<Rightarrow> [] | Some b \<Rightarrow> b)
     @ ''_'' @ (case waketime s of None \<Rightarrow> [] | Some w \<Rightarrow> w)"

text \<open>\<open>session.get('session_id') or self._generate_session_id(session)\<close>.\<close>

definition session_key :: "pylib \<Rightarrow> session \<Rightarrow> string" where
  "session_key lib s =
     (if truthy_str (session_id s) then the (session_id s) else generate_session_id lib s)"

text \<open>
  The two loops that fill \<open>session_map\<close>.  A Python dict keeps a key at the position of
  its first insertion and takes the last value assigned; \<open>AList.update\<close> does the same.
\<close>

definition build_session_map :: "pylib \<Rightarrow> session list \<Rightarrow> session list \<Rightarrow> (string \<times> session) list" where
  "build_session_map lib existing new =
     fold (\<lambda>s m. AList.update (session_key lib s) s m) (existing @ new) []"

text \<open>
  The comparison \<open>session_date >= cutoff_date\<close>: the cutoff comes from \<open>utcnow()\<close> and is
  naive; Python raises \<open>TypeError\<close> when the session's datetime is aware.
\<close>

definition ge_cutoff :: "datetime \<Rightarrow> int \<Rightarrow> stm_error + bool" where
  "ge_cutoff d cutoff = (case utcoffset d of None \<Rightarrow> Inr (cutoff \<le> stamp d) | Some _ \<Rightarrow> Inl TypeError)"

fun filter_retention :: "pylib \<Rightarrow> int \<Rightarrow> session list \<Rightarrow> stm_error + session list" where
  "filter_retention lib cutoff [] = Inr []"
| "filter_retention lib cutoff (s # ss) =
     (case parse_session_date lib s of
        None \<Rightarrow> filter_retention lib cutoff ss
      | Some d \<Rightarrow>
          (case ge_cutoff d cutoff of
             Inl e \<Rightarrow> Inl e
           | Inr keep \<Rightarrow>
               (case filter_retention lib cutoff ss of
                  Inl e \<Rightarrow> Inl e
                | Inr rest \<Rightarrow> Inr (if keep then s # rest else rest))))"

text \<open>
  The sort key \<open>parse(s) or datetime.min\<close>, on sessions that passed the filter (all naive);
  \<open>sort(reverse=True)\<close> is stable, as \<open>sort_key\<close> on the negated key is.
\<close>

definition sort_stamp :: "pylib \<Rightarrow> session \<Rightarrow> int" where
  "sort_stamp lib s = (case parse_session_date lib s of None \<Rightarrow> DATETIME_MIN | Some d \<Rightarrow> stamp d)"

definition sort_newest_first :: "pylib \<Rightarrow> session list \<Rightarrow> session list" where
  "sort_newest_first lib ss = sort_key (\<lambda>s. - sort_stamp lib s) ss"

text \<open>\<open>ShortTermMemory.get_sessions\<close>.\<close>

definition get_sessions :: "storage \<Rightarrow> string \<Rightarrow> session list \<times> storage" where
  "get_sessions st user =
     (let (doc, st') = get_memory_stm st user
      in (case doc of None \<Rightarrow> [] | Some d \<Rightarrow> stored_sessions d, st'))"

text \<open>
  \<open>ShortTermMemory.save_sessions\<close>, at the time \<open>now\<close> that \<open>utcnow()\<close> returns.  An
  exception inside the \<open>try\<close> block is caught: the function returns \<open>False\<close> and nothing
  is written.
\<close>

definition save_sessions ::
  "pylib \<Rightarrow> int \<Rightarrow> int \<Rightarrow> storage \<Rightarrow> string \<Rightarrow> session list \<Rightarrow> bool \<times> storage" where
  "save_sessions lib retention_days now st user new =
     (let (existing, st') = get_sessions st user;
          session_map = build_session_map lib existing new;
          cutoff_date = now - retention_days * DAY
      in case filter_retention lib cutoff_date (map snd session_map) of
           Inl e \<Rightarrow> (False, st')
         | Inr filtered_sessions \<Rightarrow>
             (let sorted = sort_newest_first lib filtered_sessions
              in (True, save_memory_stm st' user
                          \<lparr>stored_sessions = sorted, stm_last_updated = now,
                           stm_count = length sorted\<rparr>)))"

definition clear_old_sessions :: "pylib \<Rightarrow> int \<Rightarrow> int \<Rightarrow> storage \<Rightarrow> string \<Rightarrow> bool \<times> storage" where
  "clear_old_sessions lib retention_days now st user = save_sessions lib retention_days now st user []"

text \<open>The sessions a user's short-term document holds, read without touching the log.\<close>

definition stm_sessions_of :: "storage \<Rightarrow> string \<Rightarrow> session list" where
  "stm_sessions_of st user = (case stm_docs st user of None \<Rightarrow> [] | Some d \<Rightarrow> stored_sessions d)"

section \<open>A concrete instance of the library functions\<close>

text \<open>
  For evaluating the model on concrete inputs, \<open>std_lib\<close> implements the library
  parameters on a fragment of their domain: \<open>fromisoformat\<close> on strings of the forms
  \<open>YYYY-MM-DD\<close>, \<open>YYYY-MM-DDTHH:MM:SS\<close> and \<open>YYYY-MM-DDTHH:MM:SS+HH:MM\<close> (an offset
  makes the datetime aware), \<open>strptime(s, '%Y-%m-%d')\<close> on \<open>YYYY-MM-DD\<close>; on these
  strings it returns what Python returns, and \<open>None\<close> on every other string.  Numbers are
  rendered from their exact decimal value.  General theorems quantify over the library.
\<close>

definition digit_of :: "char \<Rightarrow> nat option" where
  "digit_of c = (let n = (of_char c :: nat) in if 48 \<le> n \<and> n \<le> 57 then Some (n - 48) else None)"

definition number_of :: "string \<Rightarrow> nat option" where
  "number_of s =
     (if s = [] then None
      else fold (\<lambda>c acc. case acc of None \<Rightarrow> None
                          | Some a \<Rightarrow> (case digit_of c of None \<Rightarrow> None | Some d \<Rightarrow> Some (10 * a + d)))
             s (Some 0))"

definition days_from_civil :: "int \<Rightarrow> int \<Rightarrow> int \<Rightarrow> int" where
  "days_from_civil y m d =
     (let y' = (if m \<le> 2 then y - 1 else y);
          era = y' div 400;
          yoe = y' - era * 400;
          mp = (m + 9) mod 12;
          doy = (153 * mp + 2) div 5 + d - 1;
          doe = yoe * 365 + yoe div 4 - yoe div 100 + doy
      in era * 146097 + doe - 719468)"

definition civil_from_days :: "int \<Rightarrow> int \<times> int \<times> int" where
  "civil_from_days z0 =
     (let z = z0 + 719468;
          era = z div 146097;
          doe = z - era * 146097;
          yoe = (doe - doe div 1460 + doe div 36524 - doe div 146096) div 365;
          doy = doe - (365 * yoe + yoe div 4 - yoe div 100);
          mp = (5 * doy + 2) div 153;
          d = doy - (153 * mp + 2) div 5 + 1;
          m = (if mp < 10 then mp + 3 else mp - 9);
          y = yoe + era * 400
      in (if m \<le> 2 then y + 1 else y, m, d))"

definition days_in_month :: "int \<Rightarrow> int \<Rightarrow> int" where
  "days_in_month y m =
     (if m = 2 then (if y mod 4 = 0 \<and> (y mod 100 \<noteq> 0 \<or> y mod 400 = 0) then 29 else 28)
      else if m \<in> set [4, 6, 9, 11] then 30 else 31)"

definition parse_ymd :: "string \<Rightarrow> int option" where
  "parse_ymd s =
     (if length s = 10 \<and> s ! 4 = CHR ''-'' \<and> s ! 7 = CHR ''-''
      then (case (number_of (take 4 s), number_of (take 2 (drop 5 s)), number_of (drop 8 s)) of
              (Some y, Some m, Some d) \<Rightarrow>
                (if 1 \<le> y \<and> 1 \<le> m \<and> m \<le> 12 \<and> 1 \<le> d \<and> int d \<le> days_in_month (int y) (int m)
                 then Some (days_from_civil (int y) (int m) (int d) * 86400)
                 else None)
            | _ \<Rightarrow> None)
      else None)"

definition parse_hms :: "string \<Rightarrow> int option" where
  "parse_hms s =
     (if length s = 8 \<and> s ! 2 = CHR '':'' \<and> s ! 5 = CHR '':''
      then (case (number_of (take 2 s), number_of (take 2 (drop 3 s)), number_of (drop 6 s)) of
              (Some h, Some m, Some sec) \<Rightarrow>
                (if h < 24 \<and> m < 60 \<and> sec < 60 then Some (int (h * 3600 + m * 60 + sec)) else None)
            | _ \<Rightarrow> None)
      else None)"

definition parse_offset :: "string \<Rightarrow> int option" where
  "parse_offset s =
     (if length s = 6 \<and> (s ! 0 = CHR ''+'' \<or> s ! 0 = CHR ''-'') \<and> s ! 3 = CHR '':''
      then (case (number_of (take 2 (drop 1 s)), number_of (drop 4 s)) of
              (Some h, Some m) \<Rightarrow>
                (if h < 24 \<and> m < 60
                 then Some ((if s ! 0 = CHR ''-'' then - 1 else 1) * int (h * 3600 + m * 60))
                 else None)
            | _ \<Rightarrow> None)
      else None)"

definition std_fromisoformat :: "string \<Rightarrow> datetime option" where
  "std_fromisoformat s =
     (if length s = 10
      then (case parse_ymd s of None \<Rightarrow> None
            | Some secs \<Rightarrow> Some \<lparr>stamp = secs * 1000000, utcoffset = None\<rparr>)
      else if length s = 19 \<and> s ! 10 = CHR ''T''
      then (case (parse_ymd (take 10 s), parse_hms (drop 11 s)) of
              (Some secs, Some t) \<Rightarrow> Some \<lparr>stamp = (secs + t) * 1000000, utcoffset = None\<rparr>
            | _ \<Rightarrow> None)
      else if length s = 25 \<and> s ! 10 = CHR ''T''
      then (case (parse_ymd (take 10 s), parse_hms (take 8 (drop 11 s)), parse_offset (drop 19 s)) of
              (Some secs, Some t, Some off) \<Rightarrow>
                Some \<lparr>stamp = (secs + t) * 1000000, utcoffset = Some off\<rparr>
            | _ \<Rightarrow> None)
      else None)"

definition std_strptime_ymd :: "string \<Rightarrow> datetime option" where
  "std_strptime_ymd s =
     (case parse_ymd s of None \<Rightarrow> None
      | Some secs \<Rightarrow> Some \<lparr>stamp = secs * 1000000, utcoffset = None\<rparr>)"

definition digit_char :: "nat \<Rightarrow> char" where
  "digit_char n = ''0123456789'' ! n"

fun show_nat :: "nat \<Rightarrow> string" where
  "show_nat n = (if n < 10 then [digit_char n] else show_nat (n div 10) @ [digit_char (n mod 10)])"

declare show_nat.simps [simp del]

definition pad_left :: "nat \<Rightarrow> string \<Rightarrow> string" where
  "pad_left k s = replicate (k - length s) CHR ''0'' @ s"

text \<open>\<open>str(d)\<close> of a datetime: \<open>YYYY-MM-DD HH:MM:SS\<close>, then the microseconds and the offset when there are any.\<close>

definition std_str_datetime :: "datetime \<Rightarrow> string" where
  "std_str_datetime d =
     (let us = stamp d mod 1000000;
          secs = stamp d div 1000000;
          (y, m, dd) = civil_from_days (secs div 86400);
          t = secs mod 86400;
          two = (\<lambda>i. pad_left 2 (show_nat (nat i)))
      in pad_left 4 (show_nat (nat y)) @ ''-'' @ two m @ ''-'' @ two dd @ '' ''
         @ two (t div 3600) @ '':'' @ two (t mod 3600 div 60) @ '':'' @ two (t mod 60)
         @ (if us = 0 then [] else ''.'' @ pad_left 6 (show_nat (nat us)))
         @ (case utcoffset d of
              None \<Rightarrow> []
            | Some off \<Rightarrow>
                (if off < 0 then ''-'' else ''+'') @ two (\<bar>off\<bar> div 3600) @ '':''
                @ two (\<bar>off\<bar> mod 3600 div 60)))"

text \<open>\<open>f'{x:.kf}'\<close>: the value rounded to \<open>k\<close> decimals.\<close>

definition fmt_fixed :: "nat \<Rightarrow> rat \<Rightarrow> string" where
  "fmt_fixed k x =
     (let r = nat (py_round (\<bar>x\<bar> * 10 ^ k))
      in (if x < 0 then ''-'' else [])
         @ show_nat (r div 10 ^ k)
         @ (if k = 0 then [] else ''.'' @ pad_left k (show_nat (r mod 10 ^ k))))"

text \<open>
  \<open>str(x)\<close> of a number: an integer value prints as an \<open>int\<close>, another value with the
  fewest decimals that represent it (at most 17).
\<close>

fun decimals_needed :: "nat \<Rightarrow> rat \<Rightarrow> nat" where
  "decimals_needed 0 x = 0"
| "decimals_needed (Suc fuel) x =
     (if x = of_int \<lfloor>x\<rfloor> then 0 else Suc (decimals_needed fuel (x * 10)))"

definition std_str_num :: "rat \<Rightarrow> string" where
  "std_str_num x = fmt_fixed (decimals_needed 17 x) x"

text \<open>\<open>str(x)\<close> of a float: at least one decimal.\<close>

definition std_str_float :: "rat \<Rightarrow> string" where
  "std_str_float x = fmt_fixed (max 1 (decimals_needed 17 x)) x"

definition std_lib :: pylib where
  "std_lib =
     \<lparr>fromisoformat = std_fromisoformat, strptime_ymd = std_strptime_ymd,
      str_datetime = std_str_datetime, fmt_1f = fmt_fixed 1, fmt_0f = fmt_fixed 0,
      str_num = std_str_num, str_float = std_str_float\<rparr>"

section \<open>Vocabulary for the properties of the short-term memory\<close>

text \<open>A session passes the retention filter when its date parses to a naive datetime at or after the cutoff.\<close>

definition in_window :: "pylib \<Rightarrow> int \<Rightarrow> session \<Rightarrow> bool" where
  "in_window lib cutoff s =
     (case parse_session_date lib s of
        None \<Rightarrow> False
      | Some d \<Rightarrow> utcoffset d = None \<and> cutoff \<le> stamp d)"

definition aware_date :: "pylib \<Rightarrow> session \<Rightarrow> bool" where
  "aware_date lib s =
     (case parse_session_date lib s of None \<Rightarrow> False | Some d \<Rightarrow> utcoffset d \<noteq> None)"

text \<open>The identity key of the specification: \<open>(session_date, bedtime, waketime)\<close>.\<close>

definition identity_key :: "session \<Rightarrow> date_field option \<times> string option \<times> string option" where
  "identity_key s = (session_date s, bedtime s, waketime s)"

definition entries_with_identity :: "session \<Rightarrow> session list \<Rightarrow> session list" where
  "entries_with_identity s ss = filter (\<lambda>x. identity_key x = identity_key s) ss"

definition entries_with_key :: "pylib \<Rightarrow> session \<Rightarrow> session list \<Rightarrow> session list" where
  "entries_with_key lib s ss = filter (\<lambda>x. session_key lib x = session_key lib s) ss"

text \<open>Every session of every short-term document has a date that parses.\<close>

definition stm_all_dated :: "pylib \<Rightarrow> storage \<Rightarrow> bool" where
  "stm_all_dated lib st = (\<forall>u. \<forall>s \<in> set (stm_sessions_of st u). parse_session_date lib s \<noteq> None)"

section \<open>Concrete inputs for the short-term memory\<close>

definition plain_session :: "string \<Rightarrow> rat \<Rightarrow> session" where
  "plain_session date eff =
     \<lparr>session_id = None, session_date = Some (DateStr date), bedtime = Some ''23:00'',
      waketime = Some ''07:00'', duration_hours = Some 8, efficiency_score = Some eff,
      interruptions = Some [], morning_mood = None\<rparr>"

definition undated_session :: session where
  "undated_session =
     \<lparr>session_id = None, session_date = None, bedtime = Some ''23:00'',
      waketime = Some ''07:00'', duration_hours = Some 8, efficiency_score = Some 80,
      interruptions = Some [], morning_mood = None\<rparr>"

definition noon_30_oct :: int where
  "noon_30_oct = 1793361600000000"   \<comment> \<open>2026-10-30T12:00:00\<close>

definition noon_4_nov :: int where
  "noon_4_nov = 1793793600000000"   \<comment> \<open>2026-11-04T12:00:00\<close>

definition STM_RETENTION_DAYS :: int where
  "STM_RETENTION_DAYS = 7"   \<comment> \<open>the default of \<open>Config.STM_RETENTION_DAYS\<close>\<close>

section \<open>Long-term memory\<close>

text \<open>\<open>LongTermMemory.get_memory\<close> is \<open>get_memory_ltm\<close>; \<open>existing_ltm = get_memory(user) or {}\<close>.\<close>

definition existing_or_empty :: "ltm_data option \<Rightarrow> ltm_data" where
  "existing_or_empty doc = (case doc of None \<Rightarrow> empty_ltm | Some d \<Rightarrow> d)"

definition calculate_trends :: "session list \<Rightarrow> (string \<rightharpoonup> rat)" where
  "calculate_trends sessions =
     (if sessions = [] then Map.empty
      else
        let durations = truthy_nums duration_hours sessions;
            efficiency_scores = truthy_nums efficiency_score sessions;
            morning_moods = truthy_nums morning_mood sessions;
            t0 = Map.empty;
            t1 = (if durations \<noteq> []
                  then t0(''avg_duration'' \<mapsto> mean durations,
                          ''min_duration'' \<mapsto> py_min durations,
                          ''max_duration'' \<mapsto> py_max durations,
                          ''duration_consistency'' \<mapsto>
                             (if 0 < py_max durations
                              then 1 - (py_max durations - py_min durations) / py_max durations
                              else 0))
                  else t0);
            t2 = (if efficiency_scores \<noteq> []
                  then t1(''avg_efficiency'' \<mapsto> mean efficiency_scores,
                          ''min_efficiency'' \<mapsto> py_min efficiency_scores,
                          ''max_efficiency'' \<mapsto> py_max efficiency_scores)
                  else t1);
            t3 = (if morning_moods \<noteq> []
                  then t2(''avg_morning_mood'' \<mapsto> mean morning_moods)
                  else t2);
            durations_7 = truthy_nums duration_hours (take 7 sessions)
        in if 7 \<le> length sessions \<and> durations_7 \<noteq> []
           then t3(''weekly_avg_duration'' \<mapsto> mean durations_7)
           else t3)"

definition identify_patterns :: "session list \<Rightarrow> pattern list" where
  "identify_patterns sessions =
     (if length sessions < 3 then []
      else
        (let bedtimes = truthy_strs bedtime sessions
         in if bedtimes \<noteq> [] \<and> length (remdups bedtimes) \<le> 2
            then [\<lparr>p_type = ''consistent_bedtime'', p_description = ''Maintains consistent bedtime'',
                   p_confidence = 8 / 10\<rparr>]
            else [])
        @ (if 7 \<le> length sessions
           then [\<lparr>p_type = ''sufficient_data'',
                  p_description = ''Has sufficient data for pattern analysis'',
                  p_confidence = 7 / 10\<rparr>]
           else []))"

text \<open>
  \<open>Counter(values).most_common(1)[0][0]\<close> on a non-empty list: the value with the highest
  count, the first one encountered among equals.
\<close>

definition most_common :: "string list \<Rightarrow> string" where
  "most_common values =
     (let keys = rev (remdups (rev values))
      in fold (\<lambda>k best. if count_list values best < count_list values k then k else best)
           (tl keys) (hd keys))"

definition extract_preferences :: "session list \<Rightarrow> (string \<rightharpoonup> json) \<Rightarrow> (string \<rightharpoonup> json)" where
  "extract_preferences sessions existing =
     (let durations = truthy_nums duration_hours sessions;
          p1 = (if durations \<noteq> []
                then existing(''preferred_duration'' \<mapsto> JNum (py_round_n 1 (mean durations)))
                else existing);
          bedtimes = truthy_strs bedtime sessions
      in if bedtimes \<noteq> [] then p1(''preferred_bedtime'' \<mapsto> JStr (most_common bedtimes)) else p1)"

text \<open>\<open>dict.get(key, {})\<close> on the optional maps of a document.\<close>

definition map_or_empty :: "('k \<rightharpoonup> 'v) option \<Rightarrow> ('k \<rightharpoonup> 'v)" where
  "map_or_empty m = (case m of None \<Rightarrow> Map.empty | Some f \<Rightarrow> f)"

definition update_trends :: "int \<Rightarrow> storage \<Rightarrow> string \<Rightarrow> session list \<Rightarrow> bool \<times> storage" where
  "update_trends now st user sessions =
     (let (doc, st') = get_memory_ltm st user;
          existing_ltm = existing_or_empty doc;
          trends = calculate_trends sessions;
          existing_trends = map_or_empty (ltm_trends existing_ltm) ++ trends;
          patterns = identify_patterns sessions;
          preferences = extract_preferences sessions (map_or_empty (ltm_preferences existing_ltm));
          ltm' = existing_ltm
                   \<lparr>ltm_trends := Some existing_trends,
                    ltm_patterns := Some patterns,
                    ltm_preferences := Some preferences,
                    ltm_last_updated := Some now,
                    total_sessions_analyzed :=
                      Some ((case total_sessions_analyzed existing_ltm of None \<Rightarrow> 0 | Some n \<Rightarrow> n)
                            + length sessions)\<rparr>
      in (True, save_memory_ltm st' user ltm'))"

definition update_recommendations ::
  "int \<Rightarrow> storage \<Rightarrow> string \<Rightarrow> recommendations \<Rightarrow> int \<Rightarrow> rat \<Rightarrow> string list \<Rightarrow> string list option
   \<Rightarrow> bool \<times> storage" where
  "update_recommendations now st user recs score conf tips issues_opt =
     (let (doc, st') = get_memory_ltm st user;
          existing_ltm = existing_or_empty doc;
          d1 = existing_ltm
                 \<lparr>ltm_recommendations := Some recs,
                  ltm_sleep_score := Some score,
                  ltm_confidence := Some conf,
                  ltm_personalized_tips := Some tips\<rparr>;
          d2 = (case issues_opt of None \<Rightarrow> d1 | Some is \<Rightarrow> d1\<lparr>ltm_issues := Some is\<rparr>);
          d3 = d2\<lparr>ltm_last_updated := Some now\<rparr>;
          d4 = d3\<lparr>ltm_trends :=
                      Some ((map_or_empty (ltm_trends d3))
                              (''avg_sleep_score'' \<mapsto> of_int score, ''confidence'' \<mapsto> conf))\<rparr>
      in (True, save_memory_ltm st' user d4))"

text \<open>\<open>LongTermMemory.get_preferences\<close>, read without touching the log.\<close>

definition preferences_of :: "storage \<Rightarrow> string \<Rightarrow> (string \<rightharpoonup> json)" where
  "preferences_of st user = map_or_empty (ltm_preferences (existing_or_empty (ltm_docs st user)))"

text \<open>A stored document as the profile route leaves it: the profile under \<open>preferences['profile']\<close>.\<close>

definition profile_only_ltm :: ltm_data where
  "profile_only_ltm =
     empty_ltm\<lparr>ltm_preferences :=
                  Some (Map.empty(''profile'' \<mapsto> JObj [(''age'', JNum 30), (''exercise'', JStr ''daily'')])),
               ltm_last_updated := Some noon_30_oct\<rparr>"

definition profile_only_storage :: storage where
  "profile_only_storage = empty_storage\<lparr>ltm_docs := Map.empty(''U_101'' \<mapsto> profile_only_ltm)\<rparr>"

section \<open>Recommender: personalized tips\<close>

text \<open>
  \<open>SleepRecommender._generate_personalized_tips\<close>, called with the analysis, the profile
  dict and the trends dict; its three sources of tips are named.  The test \<open>if trends:\<close> is subsumed by the lookup: an empty
  dict has no \<open>avg_duration\<close>, and \<open>.get('avg_duration', 0)\<close> is then falsy.
\<close>

definition exercise_tip :: "profile \<Rightarrow> string list" where
  "exercise_tip p =
     (if profile_truthy p
      then (let ex = (case exercise p of None \<Rightarrow> ''rarely'' | Some e \<Rightarrow> e)
            in if ex = ''rarely''
               then [''Incorporate regular exercise into your routine (3-4 times per week) for better sleep.'']
               else if ex = ''daily''
               then [''Great job with daily exercise! Avoid intense workouts within 3 hours of bedtime.'']
               else [])
      else [])"

definition trend_tip :: "pylib \<Rightarrow> (string \<rightharpoonup> rat) \<Rightarrow> string list" where
  "trend_tip lib trends =
     (case trends ''avg_duration'' of
        None \<Rightarrow> []
      | Some avg_duration \<Rightarrow>
          (if avg_duration \<noteq> 0 \<and> avg_duration < OPTIMAL_SLEEP_DURATION_MIN
           then [''Your average sleep duration is '' @ fmt_1f lib avg_duration
                 @ '' hours. Gradually increase to 7-9 hours for optimal rest.'']
           else []))"

definition generic_tips :: "string list" where
  "generic_tips =
     [''Maintain a consistent sleep schedule, even on weekends.'',
      ''Create a relaxing bedtime routine to signal your body for sleep.'',
      ''Avoid large meals and alcohol close to bedtime.'']"

definition generate_personalized_tips ::
  "pylib \<Rightarrow> analysis \<Rightarrow> profile \<Rightarrow> (string \<rightharpoonup> rat) \<Rightarrow> string list" where
  "generate_personalized_tips lib a p trends =
     (let tips = take 3 (case issues a of None \<Rightarrow> [] | Some is \<Rightarrow> is)
                 @ exercise_tip p @ trend_tip lib trends;
          tips' = (if length tips < 3 then tips @ generic_tips else tips)
      in take 6 tips')"

section \<open>The workflow state and its nodes\<close>

record payload =
  sleep_sessions :: "session list option"
  pl_profile :: "profile option"

record memory_info =
  mi_stm_count :: nat
  mi_payload_count :: nat
  mi_ltm_available :: bool
  mi_ltm_trends :: "string \<rightharpoonup> rat"
  mi_ltm_patterns :: "pattern list"
  mi_ltm_preferences :: "string \<rightharpoonup> json"
  mi_total_sessions :: nat

record result =
  res_summary :: string
  res_issues :: "string list"
  res_recommendations :: "recommendations option"
  res_sleep_score :: int
  res_confidence :: rat
  res_personalized_tips :: "string list"

text \<open>\<open>AgentState\<close>; the fields carry the prefix \<open>st_\<close>.\<close>

record agent_state =
  st_task_id :: string
  st_user_id :: string
  st_payload :: payload
  st_memory :: "memory_info option"
  st_stm_sessions :: "session list option"
  st_ltm_data :: "ltm_data option"
  st_analysis :: "analysis option"
  st_sleep_score :: int
  st_confidence :: rat
  st_recommendations :: "recommendations option"
  st_personalized_tips :: "string list"
  st_result :: "result option"
  st_summary :: string
  st_issues :: "string list"
  st_errors :: "string list"
  st_status :: string

text \<open>\<open>state['payload'].get('sleep_sessions', [])\<close> and \<open>state['payload'].get('profile', {})\<close>.\<close>

definition payload_sessions :: "agent_state \<Rightarrow> session list" where
  "payload_sessions state = (case sleep_sessions (st_payload state) of None \<Rightarrow> [] | Some ss \<Rightarrow> ss)"

definition payload_profile :: "agent_state \<Rightarrow> profile" where
  "payload_profile state = (case pl_profile (st_payload state) of None \<Rightarrow> empty_profile | Some p \<Rightarrow> p)"

text \<open>
  \<open>memory_fetch_node\<close>.  A missing long-term document is stored in the state as \<open>{}\<close>.
\<close>

definition memory_fetch_node :: "agent_state \<Rightarrow> storage \<Rightarrow> agent_state \<times> storage" where
  "memory_fetch_node state st =
     (let user = st_user_id state;
          (stm, st1) = get_sessions st user;
          (doc, st2) = get_memory_ltm st1 user;
          ltm = existing_or_empty doc;
          pls = payload_sessions state
      in (state\<lparr>st_stm_sessions := Some stm,
                st_ltm_data := Some ltm,
                st_memory := Some \<lparr>mi_stm_count = length stm,
                                    mi_payload_count = length pls,
                                    mi_ltm_available = (doc \<noteq> None \<and> doc \<noteq> Some empty_ltm),
                                    mi_ltm_trends = map_or_empty (ltm_trends ltm),
                                    mi_ltm_patterns = (case ltm_patterns ltm of None \<Rightarrow> [] | Some ps \<Rightarrow> ps),
                                    mi_ltm_preferences = map_or_empty (ltm_preferences ltm),
                                    mi_total_sessions = length (stm @ pls)\<rparr>\<rparr>,
          st2))"

text \<open>
  \<open>reasoning_node\<close>, without the optional language-model call (\<open>Config.USE_GEMINI\<close> is
  off by default).  Adding \<open>None\<close> and a list raises; the node records the error.  The
  test \<open>if ltm_trends:\<close> is subsumed by the two lookups: an empty dict has neither key, and
  \<open>analyze\<close> always provides both sub-analyses.
\<close>

definition reasoning_node :: "pylib \<Rightarrow> agent_state \<Rightarrow> agent_state" where
  "reasoning_node lib state =
     (case st_stm_sessions state of
        None \<Rightarrow>
          state\<lparr>st_errors := st_errors state @
            [''Reasoning node error: unsupported operand type(s) for +: 'NoneType' and 'list' '']\<rparr>
      | Some stm \<Rightarrow>
          (let all_sessions = stm @ payload_sessions state;
               ltm = (case st_ltm_data state of None \<Rightarrow> empty_ltm | Some d \<Rightarrow> d);
               ltm_tr = map_or_empty (ltm_trends ltm);
               ltm_pats = (case ltm_patterns ltm of None \<Rightarrow> [] | Some ps \<Rightarrow> ps);
               a0 = analyze lib all_sessions (payload_profile state);
               da = (case duration_analysis a0 of None \<Rightarrow> \<lparr>d_stats = None, d_ltm_average = None\<rparr> | Some d \<Rightarrow> d);
               ea = (case efficiency_analysis a0 of None \<Rightarrow> \<lparr>e_stats = None, e_ltm_average = None\<rparr> | Some e \<Rightarrow> e);
               a1 = a0\<lparr>duration_analysis :=
                          Some (case ltm_tr ''avg_duration'' of None \<Rightarrow> da
                                | Some v \<Rightarrow> da\<lparr>d_ltm_average := Some v\<rparr>),
                        efficiency_analysis :=
                          Some (case ltm_tr ''avg_efficiency'' of None \<Rightarrow> ea
                                | Some v \<Rightarrow> ea\<lparr>e_ltm_average := Some v\<rparr>)\<rparr>;
               a2 = (if ltm_pats \<noteq> [] then a1\<lparr>ltm_patterns_ctx := True\<rparr> else a1)
           in state\<lparr>st_analysis := Some a2\<rparr>))"

text \<open>
  The two nodes of the fan-out return only the keys they own.  With no analysis in the
  state, \<open>generate_recommendations\<close> raises on \<open>analysis.get\<close> and the node returns its
  defaults, \<open>{}\<close> and \<open>[]\<close>.  The advice sections are taken to be computed without error.
\<close>

record recommendation_update =
  ru_recommendations :: "recommendations option"
  ru_personalized_tips :: "string list"

definition pattern_recommendation :: "pattern \<Rightarrow> string list" where
  "pattern_recommendation pat =
     (if p_type pat = ''consistent_bedtime'' then [''Maintain your consistent bedtime routine'']
      else if p_type pat = ''sufficient_data'' then [''Continue tracking for better insights'']
      else [])"

definition recommendation_engine_node :: "pylib \<Rightarrow> agent_state \<Rightarrow> recommendation_update" where
  "recommendation_engine_node lib state =
     (case st_analysis state of
        None \<Rightarrow> \<lparr>ru_recommendations = Some empty_recommendations, ru_personalized_tips = []\<rparr>
      | Some a \<Rightarrow>
          (let ltm = (case st_ltm_data state of None \<Rightarrow> empty_ltm | Some d \<Rightarrow> d);
               trends = map_or_empty (ltm_trends ltm);
               patterns = (case ltm_patterns ltm of None \<Rightarrow> [] | Some ps \<Rightarrow> ps);
               preferences = map_or_empty (ltm_preferences ltm);
               p0 = payload_profile state;
               p1 = (case preferences ''preferred_duration'' of None \<Rightarrow> p0
                     | Some v \<Rightarrow> p0\<lparr>preferred_duration := Some v\<rparr>);
               p2 = (case preferences ''preferred_bedtime'' of None \<Rightarrow> p1
                     | Some v \<Rightarrow> p1\<lparr>preferred_bedtime := Some v\<rparr>);
               tips = generate_personalized_tips lib a p2 trends;
               pattern_recommendations = concat (map pattern_recommendation patterns);
               tips' = (if pattern_recommendations \<noteq> [] then tips @ pattern_recommendations else tips)
           in \<lparr>ru_recommendations = Some \<lparr>advice_sections = True, rec_personalized_tips = Some tips'\<rparr>,
               ru_personalized_tips = tips'\<rparr>))"

record score_update =
  su_sleep_score :: int
  su_confidence :: rat

definition scorer_node :: "agent_state \<Rightarrow> score_update" where
  "scorer_node state =
     (case st_stm_sessions state of
        None \<Rightarrow> \<lparr>su_sleep_score = 0, su_confidence = 0\<rparr>
      | Some stm \<Rightarrow>
          (let r = calculate_score (payload_sessions state @ stm) (st_analysis state)
           in \<lparr>su_sleep_score = sleep_score r, su_confidence = confidence r\<rparr>))"

text \<open>The merge of the two partial updates into the state (disjoint keys).\<close>

definition merge_updates :: "agent_state \<Rightarrow> recommendation_update \<Rightarrow> score_update \<Rightarrow> agent_state" where
  "merge_updates state ru su =
     state\<lparr>st_recommendations := ru_recommendations ru,
           st_personalized_tips := ru_personalized_tips ru,
           st_sleep_score := su_sleep_score su,
           st_confidence := su_confidence su\<rparr>"

text \<open>
  \<open>memory_write_node\<close>.  The whole body is one \<open>try\<close> block: an exception records an
  error and leaves the store as the statements before it left it.
\<close>

definition write_condition :: "agent_state \<Rightarrow> string list \<Rightarrow> bool" where
  "write_condition state issues_now =
     (let has_recommendations = (st_recommendations state \<noteq> None);
          has_score = (0 < st_sleep_score state \<or> 0 < st_confidence state);
          has_tips = (0 < length (st_personalized_tips state));
          has_issues = (0 < length issues_now)
      in has_recommendations \<or> has_score \<or> has_tips \<or> has_issues)"

definition memory_write_node ::
  "pylib \<Rightarrow> int \<Rightarrow> int \<Rightarrow> agent_state \<Rightarrow> storage \<Rightarrow> agent_state \<times> storage" where
  "memory_write_node lib retention_days now state st =
     (let user = st_user_id state;
          pls = payload_sessions state;
          st1 = (if pls \<noteq> [] then snd (save_sessions lib retention_days now st user pls) else st)
      in case st_stm_sessions state of
           None \<Rightarrow>
             (state\<lparr>st_errors := st_errors state @
                [''Memory write error: unsupported operand type(s) for +: 'NoneType' and 'list' '']\<rparr>, st1)
         | Some existing \<Rightarrow>
             (let all_sessions = existing @ pls;
                  st2 = (if all_sessions \<noteq> [] then snd (update_trends now st1 user all_sessions) else st1)
              in if st_issues state = [] \<and> st_analysis state = None
                 then (state\<lparr>st_errors := st_errors state @
                         [''Memory write error: 'NoneType' object has no attribute 'get' '']\<rparr>, st2)
                 else
                   (let issues_now =
                          (if st_issues state \<noteq> [] then st_issues state
                           else case issues (the (st_analysis state)) of None \<Rightarrow> [] | Some is \<Rightarrow> is)
                    in if write_condition state issues_now
                       then (state,
                             snd (update_recommendations now st2 user
                                    (case st_recommendations state of
                                       None \<Rightarrow> empty_recommendations | Some r \<Rightarrow> r)
                                    (st_sleep_score state) (st_confidence state)
                                    (st_personalized_tips state) (Some issues_now)))
                       else (state, st2))))"

definition formatter_node :: "agent_state \<Rightarrow> agent_state" where
  "formatter_node state =
     (case st_analysis state of
        None \<Rightarrow>
          state\<lparr>st_errors := st_errors state @
                   [''Formatter node error: 'NoneType' object has no attribute 'get' ''],
                st_status := ''error''\<rparr>
      | Some a \<Rightarrow>
          (let iss = (case issues a of None \<Rightarrow> [] | Some is \<Rightarrow> is);
               summ = (case summary a of None \<Rightarrow> ''Sleep analysis completed.'' | Some s \<Rightarrow> s)
           in state\<lparr>st_issues := iss,
                    st_summary := summ,
                    st_result := Some \<lparr>res_summary = summ, res_issues = iss,
                                       res_recommendations = st_recommendations state,
                                       res_sleep_score = st_sleep_score state,
                                       res_confidence = st_confidence state,
                                       res_personalized_tips = st_personalized_tips state\<rparr>,
                    st_status := ''completed''\<rparr>))"

section \<open>Validation and the workflow\<close>

definition MAX_SLEEP_SESSIONS_PER_TASK :: nat where
  "MAX_SLEEP_SESSIONS_PER_TASK = 1000"   \<comment> \<open>the default of \<open>Config.MAX_SLEEP_SESSIONS_PER_TASK\<close>\<close>

text \<open>
  \<open>not s.strip()\<close>: the string has only whitespace.  Strings are byte strings here, so
  the whitespace is the ASCII part of what \<open>str.strip\<close> removes.
\<close>

definition py_isspace :: "char \<Rightarrow> bool" where
  "py_isspace c = (let n = (of_char c :: nat) in (9 \<le> n \<and> n \<le> 13) \<or> (28 \<le> n \<and> n \<le> 32))"

definition blank :: "string \<Rightarrow> bool" where
  "blank s = list_all py_isspace s"

text \<open>
  \<open>validate_task_request\<close> on the dict that \<open>validation_node\<close> builds, which always has
  the three required keys.  The result is the error message, \<open>None\<close> for a valid request.
\<close>

fun session_structure_error :: "pylib \<Rightarrow> nat \<Rightarrow> session list \<Rightarrow> string option" where
  "session_structure_error lib i [] = None"
| "session_structure_error lib i (s # ss) =
     (if bedtime s = None
      then Some (''sleep_sessions['' @ show_nat i @ ''] missing required field: bedtime'')
      else if waketime s = None
      then Some (''sleep_sessions['' @ show_nat i @ ''] missing required field: waketime'')
      else case duration_hours s of
             None \<Rightarrow> Some (''sleep_sessions['' @ show_nat i @ ''] missing required field: duration_hours'')
           | Some duration \<Rightarrow>
               (if duration < MIN_SLEEP_DURATION \<or> MAX_SLEEP_DURATION < duration
                then Some (''sleep_sessions['' @ show_nat i @ ''] has invalid duration: ''
                           @ str_float lib duration)
                else session_structure_error lib (Suc i) ss))"

definition validate_task_request :: "pylib \<Rightarrow> string \<Rightarrow> string \<Rightarrow> payload \<Rightarrow> string option" where
  "validate_task_request lib task_id user_id pl =
     (if blank task_id then Some ''task_id must be a non-empty string''
      else if blank user_id then Some ''user_id must be a non-empty string''
      else case sleep_sessions pl of
             None \<Rightarrow> None
           | Some sessions \<Rightarrow>
               (if MAX_SLEEP_SESSIONS_PER_TASK < length sessions
                then Some (''Too many sleep sessions (max: '' @ show_nat MAX_SLEEP_SESSIONS_PER_TASK @ '')'')
                else session_structure_error lib 0 sessions))"

text \<open>\<open>int(x)\<close> of a number: truncation towards zero.\<close>

definition py_int :: "rat \<Rightarrow> int" where
  "py_int x = (if 0 \<le> x then \<lfloor>x\<rfloor> else \<lceil>x\<rceil>)"

definition validate_sleep_session :: "pylib \<Rightarrow> session \<Rightarrow> string option" where
  "validate_sleep_session lib s =
     (if bedtime s = None then Some ''Missing required field: bedtime''
      else if waketime s = None then Some ''Missing required field: waketime''
      else case duration_hours s of
             None \<Rightarrow> Some ''Missing required field: duration_hours''
           | Some duration \<Rightarrow>
               (if duration < MIN_SLEEP_DURATION \<or> MAX_SLEEP_DURATION < duration
                then Some (''Invalid sleep duration: '' @ str_float lib duration @ '' hours'')
                else if (case efficiency_score s of None \<Rightarrow> False | Some score \<Rightarrow> score < 0 \<or> 100 < score)
                then Some ''efficiency_score must be between 0 and 100''
                else if (case morning_mood s of None \<Rightarrow> False
                         | Some mood \<Rightarrow> py_int mood < 1 \<or> 10 < py_int mood)
                then Some ''morning_mood must be between 1 and 10''
                else None))"

text \<open>The loop over \<open>enumerate(sessions)\<close> of \<open>validation_node\<close>.\<close>

fun session_errors :: "pylib \<Rightarrow> nat \<Rightarrow> session list \<Rightarrow> string list" where
  "session_errors lib i [] = []"
| "session_errors lib i (s # ss) =
     (case validate_sleep_session lib s of
        None \<Rightarrow> []
      | Some msg \<Rightarrow> [''Session '' @ show_nat i @ '' validation error: '' @ msg])
     @ session_errors lib (Suc i) ss"

definition validation_node :: "pylib \<Rightarrow> agent_state \<Rightarrow> agent_state" where
  "validation_node lib state =
     (case validate_task_request lib (st_task_id state) (st_user_id state) (st_payload state) of
        Some error_msg \<Rightarrow>
          state\<lparr>st_errors := st_errors state @ [''Validation error: '' @ error_msg],
                st_status := ''error''\<rparr>
      | None \<Rightarrow>
          (let errs = st_errors state @ session_errors lib 0 (payload_sessions state)
           in state\<lparr>st_errors := errs,
                    st_status := (if errs \<noteq> [] then ''error'' else ''processing'')\<rparr>))"

definition should_continue :: "agent_state \<Rightarrow> string" where
  "should_continue state =
     (if st_status state = ''error'' \<or> st_errors state \<noteq> [] then ''error'' else ''continue'')"

text \<open>
  The compiled graph of \<open>create_workflow\<close>: \<open>validation\<close>, then the conditional edge to
  \<open>END\<close> or to \<open>memory_fetch\<close>, \<open>reasoning\<close>, the two nodes of the fan-out on the same
  state, their merge, \<open>memory_write\<close> and \<open>formatter\<close>.  The store is threaded through
  the nodes that use it.
\<close>

definition workflow_invoke ::
  "pylib \<Rightarrow> int \<Rightarrow> int \<Rightarrow> agent_state \<Rightarrow> storage \<Rightarrow> agent_state \<times> storage" where
  "workflow_invoke lib retention_days now initial_state st =
     (let s1 = validation_node lib initial_state
      in if should_continue s1 = ''error'' then (s1, st)
         else
           let (s2, st2) = memory_fetch_node s1 st;
               s3 = reasoning_node lib s2;
               s4 = merge_updates s3 (recommendation_engine_node lib s3) (scorer_node s3);
               (s5, st5) = memory_write_node lib retention_days now s4 st2
           in (formatter_node s5, st5))"

text \<open>The request as it arrives: each of the three keys may be absent.\<close>

record task_request =
  rq_task_id :: "string option"
  rq_user_id :: "string option"
  rq_payload :: "payload option"

record task_response =
  resp_task_id :: string
  resp_status :: string
  resp_result :: "result option"
  resp_error :: "string option"

definition initial_state :: "task_request \<Rightarrow> agent_state" where
  "initial_state task_data =
     \<lparr>st_task_id = (case rq_task_id task_data of None \<Rightarrow> [] | Some t \<Rightarrow> t),
      st_user_id = (case rq_user_id task_data of None \<Rightarrow> [] | Some u \<Rightarrow> u),
      st_payload = (case rq_payload task_data of
                      None \<Rightarrow> \<lparr>sleep_sessions = None, pl_profile = None\<rparr> | Some p \<Rightarrow> p),
      st_memory = None,
      st_stm_sessions = None,
      st_ltm_data = None,
      st_analysis = None,
      st_sleep_score = 0,
      st_confidence = 0,
      st_recommendations = None,
      st_personalized_tips = [],
      st_result = None,
      st_summary = [],
      st_issues = [],
      st_errors = [],
      st_status = ''processing''\<rparr>"

definition process_task ::
  "pylib \<Rightarrow> int \<Rightarrow> int \<Rightarrow> task_request \<Rightarrow> storage \<Rightarrow> task_response \<times> storage" where
  "process_task lib retention_days now task_data st =
     (let (final_state, st') = workflow_invoke lib retention_days now (initial_state task_data) st
      in if st_status final_state = ''error'' \<or> st_errors final_state \<noteq> []
         then (\<lparr>resp_task_id = st_task_id final_state, resp_status = ''error'',
                 resp_result = None, resp_error = Some (join ''; '' (st_errors final_state))\<rparr>, st')
         else (\<lparr>resp_task_id = st_task_id final_state, resp_status = ''completed'',
                 resp_result = st_result final_state, resp_error = None\<rparr>, st'))"

section \<open>Concrete inputs for the workflow nodes\<close>

text \<open>
  A state after \<open>reasoning\<close> for a user who sleeps too little, irregularly and with
  interruptions: three issues from the analyzer, a profile without regular exercise, and a
  long-term document with a short average duration and both patterns.
\<close>

definition three_issues :: "string list" where
  "three_issues =
     [''Average sleep duration is too short (5.0 hours). Aim for 7-9 hours.'',
      ''Sleep schedule is inconsistent. Try maintaining the same bedtime and wake time.'',
      ''Frequent sleep interruptions detected. Consider optimizing your sleep environment.'']"

definition issues_only_analysis :: "string list \<Rightarrow> analysis" where
  "issues_only_analysis is =
     \<lparr>duration_analysis = Some \<lparr>d_stats = None, d_ltm_average = None\<rparr>,
      consistency_analysis = Some None,
      efficiency_analysis = Some \<lparr>e_stats = None, e_ltm_average = None\<rparr>,
      interruption_analysis = Some None,
      caffeine_analysis = None, screen_time_analysis = None, exercise_analysis = None,
      issues = Some is, summary = Some ''Sleep analysis completed.'', ltm_patterns_ctx = False\<rparr>"

definition both_patterns :: "pattern list" where
  "both_patterns =
     [\<lparr>p_type = ''consistent_bedtime'', p_description = ''Maintains consistent bedtime'',
       p_confidence = 8 / 10\<rparr>,
      \<lparr>p_type = ''sufficient_data'', p_description = ''Has sufficient data for pattern analysis'',
       p_confidence = 7 / 10\<rparr>]"

definition short_sleeper_ltm :: ltm_data where
  "short_sleeper_ltm =
     empty_ltm\<lparr>ltm_trends := Some (Map.empty(''avg_duration'' \<mapsto> 5)),
               ltm_patterns := Some both_patterns\<rparr>"

definition short_sleeper_state :: agent_state where
  "short_sleeper_state =
     (initial_state \<lparr>rq_task_id = Some ''task_123'', rq_user_id = Some ''U_101'',
                     rq_payload = Some \<lparr>sleep_sessions = None,
                                         pl_profile = Some (empty_profile\<lparr>exercise := Some ''rarely''\<rparr>)\<rparr>\<rparr>)
       \<lparr>st_stm_sessions := Some [],
        st_ltm_data := Some short_sleeper_ltm,
        st_analysis := Some (issues_only_analysis three_issues)\<rparr>"

text \<open>The tips that the patterns of a state's long-term document add.\<close>

definition state_patterns :: "agent_state \<Rightarrow> pattern list" where
  "state_patterns state =
     (case st_ltm_data state of None \<Rightarrow> []
      | Some d \<Rightarrow> (case ltm_patterns d of None \<Rightarrow> [] | Some ps \<Rightarrow> ps))"

section \<open>Vocabulary for the properties of the workflow\<close>







definition scored_ltm :: ltm_data where
  "scored_ltm =
     empty_ltm\<lparr>ltm_recommendations := Some \<lparr>advice_sections = True, rec_personalized_tips = Some generic_tips\<rparr>,
               ltm_sleep_score := Some 82,
               ltm_confidence := Some (9 / 10),
               ltm_personalized_tips := Some generic_tips,
               ltm_issues := Some []\<rparr>"

definition scored_storage :: storage where
  "scored_storage = empty_storage\<lparr>ltm_docs := Map.empty(''U_101'' \<mapsto> scored_ltm)\<rparr>"

text \<open>A request lacks a user id when the key is absent or its string is empty or blank.\<close>

definition lacks_user_id :: "task_request \<Rightarrow> bool" where
  "lacks_user_id rq = (case rq_user_id rq of None \<Rightarrow> True | Some u \<Rightarrow> blank u)"

definition anonymous_request :: task_request where
  "anonymous_request =
     \<lparr>rq_task_id = Some ''task_125'', rq_user_id = None,
      rq_payload = Some \<lparr>sleep_sessions = Some [plain_session ''2026-11-03'' 70], pl_profile = None\<rparr>\<rparr>"

section \<open>Vocabulary for the duration sub-score\<close>

text \<open>
  The mean that \<open>_score_duration\<close> computes when no analysis is passed (lines 70--73 of
  \<open>scorer.py\<close>): the sessions with a truthy \<open>duration_hours\<close>, and their mean.
\<close>

definition has_durations :: "session list \<Rightarrow> bool" where
  "has_durations sessions = (truthy_nums duration_hours sessions \<noteq> [])"

definition mean_duration :: "session list \<Rightarrow> rat" where
  "mean_duration sessions = mean (truthy_nums duration_hours sessions)"

text \<open>The average that \<open>_score_duration\<close> reads from an analysis: \<open>.get('average', 0)\<close>.\<close>

definition analysis_average :: "duration_analysis \<Rightarrow> rat" where
  "analysis_average da = (case d_stats da of None \<Rightarrow> 0 | Some st \<Rightarrow> d_average st)"

text \<open>A session of a given duration.\<close>

definition timed_session :: "rat \<Rightarrow> session" where
  "timed_session d =
     \<lparr>session_id = None, session_date = None, bedtime = Some ''22:00'', waketime = Some ''06:00'',
      duration_hours = Some d, efficiency_score = None, interruptions = Some [],
      morning_mood = None\<rparr>"

section \<open>Properties of the scorer\<close>

lemmas config_defs =
  OPTIMAL_SLEEP_DURATION_MIN_def OPTIMAL_SLEEP_DURATION_MAX_def
  MIN_SLEEP_DURATION_def MAX_SLEEP_DURATION_def

lemma duration_score_low: "0 \<le> a \<Longrightarrow> a < 7 \<Longrightarrow> duration_score_of a = a / 7 * 100"
  by (simp add: duration_score_of_def config_defs)

lemma duration_score_high: "9 < a \<Longrightarrow> a \<le> 16 \<Longrightarrow> duration_score_of a = (1 - (a - 9) / 7) * 100"
  by (simp add: duration_score_of_def config_defs)

lemma duration_score_band: "7 \<le> a \<Longrightarrow> a \<le> 9 \<Longrightarrow> duration_score_of a = 100"
  by (simp add: duration_score_of_def config_defs)

lemma py_round_lower: "x - 1 / 2 \<le> of_int (py_round x)"
  unfolding py_round_def Let_def by (auto simp: not_less) linarith+

lemma py_round_upper: "of_int (py_round x) \<le> x + 1 / 2"
  unfolding py_round_def Let_def by (auto simp: not_less) linarith+

lemma py_round_nonneg: "0 \<le> x \<Longrightarrow> 0 \<le> py_round x"
proof -
  assume "0 \<le> x"
  then have "0 \<le> \<lfloor>x\<rfloor>" by simp
  then show ?thesis unfolding py_round_def Let_def by auto
qed

lemma py_round_pos: "1 \<le> x \<Longrightarrow> 1 \<le> py_round x"
proof -
  assume "1 \<le> x"
  then have "1 \<le> \<lfloor>x\<rfloor>" by linarith
  then show ?thesis unfolding py_round_def Let_def by auto
qed

lemma py_round_le_int: "x \<le> of_int n \<Longrightarrow> py_round x \<le> n"
proof -
  assume h: "x \<le> of_int n"
  have "of_int (py_round x) \<le> x + 1 / 2" by (rule py_round_upper)
  with h have "(of_int (py_round x) :: rat) < of_int n + 1" by linarith
  then have "(of_int (py_round x) :: rat) < of_int (n + 1)" by simp
  then have "py_round x < n + 1" by (simp only: of_int_less_iff)
  then show ?thesis by simp
qed

lemma calculate_confidence_le: "calculate_confidence sessions \<le> 1"
  by (simp add: calculate_confidence_def Let_def)

lemma calculate_confidence_ge: "sessions \<noteq> [] \<Longrightarrow> 4 / 70 \<le> calculate_confidence sessions"
proof -
  assume ne: "sessions \<noteq> []"
  define n where "n = length sessions"
  define c where "c = length (filter (\<lambda>s. truthy_num (duration_hours s) \<and> truthy_str (bedtime s)
                                   \<and> truthy_str (waketime s)) sessions)"
  define e where "e = length (filter (\<lambda>s. truthy_num (efficiency_score s)) sessions)"
  from ne have "1 \<le> n" unfolding n_def by (cases sessions) simp_all
  then have l1: "(1::rat) \<le> of_nat n" by (metis of_nat_1 of_nat_le_iff)
  then have a: "(1 / 7 :: rat) \<le> min 1 (of_nat n / 7)" by simp
  have b: "(0::rat) \<le> of_nat c / of_nat n" by simp
  have d: "(0::rat) \<le> of_nat e / of_nat n" by simp
  define A where "A = min 1 (rat_of_nat n / 7)"
  define B where "B = rat_of_nat c / rat_of_nat n"
  define D where "D = rat_of_nat e / rat_of_nat n"
  from a b d have "1 / 7 \<le> A" "0 \<le> B" "0 \<le> D" unfolding A_def B_def D_def by simp_all
  then have "4 / 70 \<le> A * (4 / 10) + B * (4 / 10) + D * (2 / 10)" by simp
  then have "4 / 70 \<le> min 1 (max 0 (A * (4 / 10) + B * (4 / 10) + D * (2 / 10)))" by simp
  then have "4 / 70 \<le> min 1 (max 0 (min 1 (of_nat n / 7) * (4 / 10) + (of_nat c / of_nat n) * (4 / 10)
                  + (of_nat e / of_nat n) * (2 / 10 :: rat)))"
    unfolding A_def B_def D_def .
  then show ?thesis
    using ne unfolding calculate_confidence_def Let_def n_def c_def e_def by simp
qed

text \<open>
  C5.  For every session list and every optional analysis, the confidence returned by
  \<open>calculate_score\<close> lies in \<open>[0, 1]\<close>; it is 0 exactly when the session list is
  empty, and strictly positive for every non-empty list.
\<close>

theorem confidence_range:
  "0 \<le> confidence (calculate_score sessions a)
   \<and> confidence (calculate_score sessions a) \<le> 1
   \<and> (confidence (calculate_score sessions a) = 0 \<longleftrightarrow> sessions = [])
   \<and> (sessions \<noteq> [] \<longrightarrow> 0 < confidence (calculate_score sessions a))"
proof (cases "sessions = []")
  case True
  then show ?thesis by (simp add: calculate_score_def)
next
  case False
  define x where "x = calculate_confidence sessions"
  have conf: "confidence (calculate_score sessions a) = py_round_n 2 x"
    using False by (simp add: calculate_score_def Let_def x_def)
  have lo: "4 / 70 \<le> x" unfolding x_def using False by (rule calculate_confidence_ge)
  have hi: "x \<le> 1" unfolding x_def by (rule calculate_confidence_le)
  from lo have "1 \<le> x * 10 ^ 2" by simp
  then have p1: "1 \<le> py_round (x * 10 ^ 2)" by (rule py_round_pos)
  from hi have "x * 10 ^ 2 \<le> of_int 100" by simp
  then have p2: "py_round (x * 10 ^ 2) \<le> 100" by (rule py_round_le_int)
  from p1 have pos: "0 < py_round_n 2 x" by (simp add: py_round_n_def)
  from p2 have "(of_int (py_round (x * 10 ^ 2)) :: rat) \<le> of_int 100" by (simp only: of_int_le_iff)
  then have le: "py_round_n 2 x \<le> 1" by (simp add: py_round_n_def)
  from pos le False conf show ?thesis by simp
qed

theorem confidence_range_witness:
  "0 < confidence (calculate_score scenario_sessions None)
   \<and> confidence (calculate_score scenario_sessions None) \<le> 1
   \<and> confidence (calculate_score [] None) = 0"
  using confidence_range [of scenario_sessions None] confidence_range [of "[]" None]
  by (simp add: scenario_sessions_def)

lemma analyze_parts:
  "sessions \<noteq> [] \<Longrightarrow>
     duration_analysis (analyze lib sessions p) = Some (analyze_duration sessions)
     \<and> consistency_analysis (analyze lib sessions p) = Some (Some (analyze_consistency sessions))
     \<and> efficiency_analysis (analyze lib sessions p) = Some (analyze_efficiency sessions)
     \<and> interruption_analysis (analyze lib sessions p) = Some (Some (analyze_interruptions sessions))"
  by (simp add: analyze_def Let_def)

lemma scenario_ne: "scenario_sessions \<noteq> []"
  by (simp add: scenario_sessions_def)

lemma sd: "d_stats (analyze_duration scenario_sessions) = Some \<lparr>d_average = 8, d_minimum = 8, d_maximum = 8, optimal_count = 7, too_short_count = 0, too_long_count = 0, d_total_sessions = 7, is_optimal = True\<rparr>"
  by code_simp

lemma sc: "overall_consistency (analyze_consistency scenario_sessions) = 1"
  by code_simp

lemma se: "e_stats (analyze_efficiency scenario_sessions) = None"
  by code_simp

lemma si: "average_per_session (analyze_interruptions scenario_sessions) = 0"
  by code_simp

text \<open>
  C1.  Scenario A as the pipeline runs it, with the analysis of the same sessions passed to
  \<open>calculate_score\<close>: the duration, consistency and interruption sub-scores are 100, but
  the efficiency sub-score is 0, not the default 50, and the overall score is 70, not 85.
  The analyzer returns an empty \<open>efficiency_analysis\<close> when no session has an efficiency
  score; the key is present, so \<open>_score_efficiency\<close> reads \<open>.get('average', 0)\<close> and never
  reaches its own default of 50.
\<close>

theorem scenario_a_scores:
  "calculate_score scenario_sessions (Some (analyze lib scenario_sessions p))
     = \<lparr>sleep_score = 70, confidence = 4 / 5,
        breakdown = Some \<lparr>duration_score = 100, consistency_score = 100,
                           bd_efficiency_score = 0, interruption_score = 100\<rparr>\<rparr>"
proof -
  let ?a = "Some (analyze lib scenario_sessions p)"
  note parts = analyze_parts [OF scenario_ne, of lib p]
  have ds: "score_duration scenario_sessions ?a = 100"
    by (simp add: score_duration_def parts sd duration_score_band)
  have cs: "score_consistency scenario_sessions ?a = 100"
    by (simp add: score_consistency_def parts sc)
  have es: "score_efficiency scenario_sessions ?a = 0"
    by (simp add: score_efficiency_def parts se)
  have ins: "score_interruptions scenario_sessions ?a = 100"
    by (simp add: score_interruptions_def parts si)
  have cf: "calculate_confidence scenario_sessions = 4 / 5"
    by code_simp
  have r0: "py_round 70 = 70" by code_simp
  have r1: "py_round_n 2 (4 / 5) = 4 / 5" by code_simp
  have r2: "py_round_n (Suc 0) 100 = 100" by code_simp
  have r3: "py_round_n (Suc 0) 0 = 0" by code_simp
  show ?thesis
    by (simp add: calculate_score_def scenario_ne ds cs es ins cf r0 r1 r2 r3 Let_def)
qed

text \<open>Without an analysis the scorer computes the scores of the scenario itself: 50 and 85.\<close>

lemma scenario_a_without_analysis:
  "calculate_score scenario_sessions None
     = \<lparr>sleep_score = 85, confidence = 4 / 5,
        breakdown = Some \<lparr>duration_score = 100, consistency_score = 100,
                           bd_efficiency_score = 50, interruption_score = 100\<rparr>\<rparr>"
  by code_simp

section \<open>Properties of the short-term memory\<close>

lemma in_window_undated: "parse_session_date lib s = None \<Longrightarrow> \<not> in_window lib c s"
  by (simp add: in_window_def)

lemma aware_date_undated: "parse_session_date lib s = None \<Longrightarrow> \<not> aware_date lib s"
  by (simp add: aware_date_def)

lemma in_window_naive:
  "parse_session_date lib s = Some d \<Longrightarrow> utcoffset d = None \<Longrightarrow> in_window lib c s = (c \<le> stamp d)"
  by (simp add: in_window_def)

lemma aware_date_naive:
  "parse_session_date lib s = Some d \<Longrightarrow> utcoffset d = None \<Longrightarrow> \<not> aware_date lib s"
  by (simp add: aware_date_def)

lemma aware_date_aware:
  "parse_session_date lib s = Some d \<Longrightarrow> utcoffset d = Some off \<Longrightarrow> aware_date lib s"
  by (simp add: aware_date_def)

lemma filter_retention_char:
  "filter_retention lib c xs =
     (if \<exists>s \<in> set xs. aware_date lib s then Inl TypeError else Inr (filter (in_window lib c) xs))"
proof (induction xs)
  case Nil
  then show ?case by simp
next
  case (Cons s ss)
  show ?case
  proof (cases "parse_session_date lib s")
    case None
    then show ?thesis using Cons by (simp add: in_window_undated aware_date_undated)
  next
    case (Some d)
    show ?thesis
    proof (cases "utcoffset d")
      case None
      with Some Cons show ?thesis
        by (simp add: in_window_naive aware_date_naive ge_cutoff_def)
    next
      case (Some off)
      with \<open>parse_session_date lib s = Some d\<close> show ?thesis
        by (simp add: aware_date_aware ge_cutoff_def)
    qed
  qed
qed

lemma set_alist_update: "set (AList.update k v al) \<subseteq> insert (k, v) (set al)"
  by (induction al) auto

lemma fold_update_distinct:
  "distinct (map fst m) \<Longrightarrow> distinct (map fst (fold (\<lambda>s m. AList.update (k s) s m) xs m))"
  by (induction xs arbitrary: m) (simp_all add: distinct_update)

lemma fold_update_keyed:
  "(\<forall>p \<in> set m. k (snd p) = fst p) \<Longrightarrow>
   \<forall>p \<in> set (fold (\<lambda>s m. AList.update (k s) s m) xs m). k (snd p) = fst p"
proof (induction xs arbitrary: m)
  case Nil
  then show ?case by simp
next
  case (Cons x xs)
  have "\<forall>p \<in> set (AList.update (k x) x m). k (snd p) = fst p"
    using Cons.prems set_alist_update [of "k x" x m] by auto
  then show ?case using Cons.IH by simp
qed

lemma fold_update_other:
  "\<forall>s \<in> set xs. k s \<noteq> key \<Longrightarrow>
   map_of (fold (\<lambda>s m. AList.update (k s) s m) xs m) key = map_of m key"
  by (induction xs arbitrary: m) (auto simp: update_conv')

lemma fold_update_last:
  assumes "\<forall>s \<in> set post. k s \<noteq> k x"
  shows "map_of (fold (\<lambda>s m. AList.update (k s) s m) (pre @ x # post) m) (k x) = Some x"
proof -
  have "map_of (fold (\<lambda>s m. AList.update (k s) s m) (pre @ x # post) m) (k x)
        = map_of (AList.update (k x) x (fold (\<lambda>s m. AList.update (k s) s m) pre m)) (k x)"
    using assms by (simp add: fold_update_other)
  then show ?thesis by (simp add: update_conv')
qed

lemma fold_update_values:
  "set (map snd (fold (\<lambda>s m. AList.update (k s) s m) xs m)) \<subseteq> set xs \<union> set (map snd m)"
proof (induction xs arbitrary: m)
  case Nil
  then show ?case by simp
next
  case (Cons x xs)
  have "set (map snd (AList.update (k x) x m)) \<subseteq> insert x (set (map snd m))"
    using set_alist_update [of "k x" x m] by auto
  with Cons.IH [of "AList.update (k x) x m"] show ?case by auto
qed

lemma keyed_filter:
  assumes "distinct (map fst al)" and "\<forall>p \<in> set al. k (snd p) = fst p"
  shows "filter (\<lambda>s. k s = key) (map snd al) = (case map_of al key of None \<Rightarrow> [] | Some s \<Rightarrow> [s])"
  using assms
proof (induction al)
  case Nil
  then show ?case by simp
next
  case (Cons p al)
  obtain a b where p: "p = (a, b)" by (cases p)
  from Cons.prems p have kb: "k b = a" and d: "a \<notin> fst ` set al" "distinct (map fst al)"
    and inv: "\<forall>p \<in> set al. k (snd p) = fst p" by auto
  show ?case
  proof (cases "a = key")
    case True
    with d have none: "map_of al key = None" by (simp add: map_of_eq_None_iff)
    have "\<forall>s \<in> set (map snd al). k s \<noteq> key"
    proof
      fix s assume "s \<in> set (map snd al)"
      then obtain q where q: "q \<in> set al" "s = snd q" by auto
      with inv have "k s = fst q" by simp
      with q d True show "k s \<noteq> key" by auto
    qed
    then have "filter (\<lambda>s. k s = key) (map snd al) = []"
      by (simp add: filter_empty_conv)
    with none show ?thesis using p kb True by simp
  next
    case False
    with Cons.IH d inv p kb show ?thesis by simp
  qed
qed

lemma save_sessions_unfold:
  "save_sessions lib rd now st user new =
     (let vals = map snd (build_session_map lib (stm_sessions_of st user) new);
          st' = st\<lparr>access_log := access_log st @ [Read user STM]\<rparr>
      in if \<exists>s \<in> set vals. aware_date lib s then (False, st')
         else (True, save_memory_stm st' user
                 \<lparr>stored_sessions = sort_newest_first lib (filter (in_window lib (now - rd * DAY)) vals),
                  stm_last_updated = now,
                  stm_count = length (filter (in_window lib (now - rd * DAY)) vals)\<rparr>))"
  by (simp add: save_sessions_def get_sessions_def get_memory_stm_def stm_sessions_of_def
      filter_retention_char Let_def sort_newest_first_def)

lemma stm_sessions_after_save:
  "stm_sessions_of (snd (save_sessions lib rd now st user new)) u =
     (if fst (save_sessions lib rd now st user new) \<and> u = user
      then sort_newest_first lib
             (filter (in_window lib (now - rd * DAY))
                (map snd (build_session_map lib (stm_sessions_of st user) new)))
      else stm_sessions_of st u)"
  by (simp add: save_sessions_unfold Let_def stm_sessions_of_def save_memory_stm_def)

lemma save_sessions_ok_iff:
  "fst (save_sessions lib rd now st user new) \<longleftrightarrow>
     \<not> (\<exists>s \<in> set (map snd (build_session_map lib (stm_sessions_of st user) new)). aware_date lib s)"
  by (simp add: save_sessions_unfold Let_def)

lemma save_sessions_docs_on_failure:
  "\<not> fst (save_sessions lib rd now st user new) \<Longrightarrow>
     stm_docs (snd (save_sessions lib rd now st user new)) = stm_docs st"
  by (auto simp: save_sessions_unfold Let_def split: if_splits)

lemma set_sort_newest_first: "set (sort_newest_first lib xs) = set xs"
  by (simp add: sort_newest_first_def)

lemma filter_sort_newest_first: "filter P (sort_newest_first lib xs) = sort_newest_first lib (filter P xs)"
  by (simp add: sort_newest_first_def filter_sort)

lemma sort_newest_first_short: "length xs \<le> 1 \<Longrightarrow> sort_newest_first lib xs = xs"
  by (cases xs) (simp_all add: sort_newest_first_def)

text \<open>A save that returns \<open>True\<close> leaves only sessions inside the retention window.\<close>

lemma save_sessions_retention:
  "fst (save_sessions lib rd now st user new) \<Longrightarrow>
   s \<in> set (stm_sessions_of (snd (save_sessions lib rd now st user new)) user) \<Longrightarrow>
   in_window lib (now - rd * DAY) s"
  by (simp add: stm_sessions_after_save set_sort_newest_first)

lemma build_session_map_distinct: "distinct (map fst (build_session_map lib existing new))"
  unfolding build_session_map_def by (rule fold_update_distinct) simp

lemma build_session_map_keyed:
  "\<forall>p \<in> set (build_session_map lib existing new). session_key lib (snd p) = fst p"
  unfolding build_session_map_def by (rule fold_update_keyed) simp

lemma build_session_map_entries:
  "filter (\<lambda>s. session_key lib s = key) (map snd (build_session_map lib existing new))
     = (case map_of (build_session_map lib existing new) key of None \<Rightarrow> [] | Some s \<Rightarrow> [s])"
  by (rule keyed_filter [OF build_session_map_distinct build_session_map_keyed])

lemma build_session_map_last:
  assumes "\<forall>s \<in> set post. session_key lib s \<noteq> session_key lib x"
  shows "map_of (build_session_map lib existing (pre @ x # post)) (session_key lib x) = Some x"
proof -
  have "existing @ pre @ x # post = (existing @ pre) @ x # post" by simp
  then show ?thesis
    unfolding build_session_map_def
    using fold_update_last [OF assms, of "existing @ pre" "[]"] by simp
qed

lemma entries_after_save:
  assumes ok: "fst (save_sessions lib rd now st user (pre @ x # post))"
      and last: "\<forall>s \<in> set post. session_key lib s \<noteq> session_key lib x"
  shows "entries_with_key lib x (stm_sessions_of (snd (save_sessions lib rd now st user (pre @ x # post))) user)
           = (if in_window lib (now - rd * DAY) x then [x] else [])"
proof -
  let ?vals = "map snd (build_session_map lib (stm_sessions_of st user) (pre @ x # post))"
  let ?W = "in_window lib (now - rd * DAY)"
  let ?K = "\<lambda>s. session_key lib s = session_key lib x"
  have e: "filter ?K ?vals = [x]"
    by (simp add: build_session_map_entries build_session_map_last [OF last])
  have "entries_with_key lib x (stm_sessions_of (snd (save_sessions lib rd now st user (pre @ x # post))) user)
          = filter ?K (sort_newest_first lib (filter ?W ?vals))"
    using ok by (simp add: entries_with_key_def stm_sessions_after_save)
  also have "\<dots> = sort_newest_first lib (filter ?W (filter ?K ?vals))"
    by (simp add: filter_sort_newest_first conj_commute)
  also have "\<dots> = sort_newest_first lib (filter ?W [x])"
    by (simp only: e)
  also have "\<dots> = (if ?W x then [x] else [])"
    by (simp add: sort_newest_first_short)
  finally show ?thesis .
qed

lemma same_identity_same_key:
  "\<not> truthy_str (session_id a) \<Longrightarrow> \<not> truthy_str (session_id b) \<Longrightarrow>
   identity_key a = identity_key b \<Longrightarrow> session_key lib a = session_key lib b"
  by (simp add: session_key_def generate_session_id_def identity_key_def)

lemmas std_parse_defs =
  parse_session_date_def std_lib_def replace_Z_def std_fromisoformat_def std_strptime_ymd_def
  parse_ymd_def parse_hms_def parse_offset_def number_of_def digit_of_def days_from_civil_def
  days_in_month_def

lemma parse_25_oct:
  "parse_session_date std_lib (plain_session ''2026-10-25'' e) = Some \<lparr>stamp = 1792886400000000, utcoffset = None\<rparr>"
  by (simp add: plain_session_def std_parse_defs)

lemma parse_1_oct:
  "parse_session_date std_lib (plain_session ''2026-10-01'' e) = Some \<lparr>stamp = 1790812800000000, utcoffset = None\<rparr>"
  by (simp add: plain_session_def std_parse_defs)

lemma parse_3_nov:
  "parse_session_date std_lib (plain_session ''2026-11-03'' e) = Some \<lparr>stamp = 1793664000000000, utcoffset = None\<rparr>"
  by (simp add: plain_session_def std_parse_defs)

lemma parse_3_nov_Z:
  "parse_session_date std_lib (plain_session ''2026-11-03T23:00:00Z'' e) = Some \<lparr>stamp = 1793746800000000, utcoffset = Some 0\<rparr>"
  by (simp add: plain_session_def std_parse_defs)

lemma parse_undated: "parse_session_date lib undated_session = None"
  by (simp add: undated_session_def parse_session_date_def)

lemma key_plain: "session_key lib (plain_session d e) = d @ ''_23:00_07:00''"
  by (simp add: session_key_def generate_session_id_def plain_session_def)

lemma build_session_map_values:
  "set (map snd (build_session_map lib existing new)) \<subseteq> set existing \<union> set new"
  using fold_update_values [of "session_key lib" "existing @ new" "[]"]
  by (simp add: build_session_map_def)

lemma stored_subset:
  "set (stm_sessions_of (snd (save_sessions lib rd now st user new)) u)
     \<subseteq> set (stm_sessions_of st u) \<union> set new"
proof (cases "fst (save_sessions lib rd now st user new) \<and> u = user")
  case True
  have "set (map snd (build_session_map lib (stm_sessions_of st user) new))
          \<subseteq> set (stm_sessions_of st user) \<union> set new"
    by (rule build_session_map_values)
  with True show ?thesis
    by (auto simp: stm_sessions_after_save set_sort_newest_first)
next
  case False
  then show ?thesis by (auto simp: stm_sessions_after_save)
qed

lemma save_sessions_ok_if_naive:
  assumes "\<forall>s \<in> set (stm_sessions_of st user) \<union> set new. \<not> aware_date lib s"
  shows "fst (save_sessions lib rd now st user new)"
proof -
  have "set (map snd (build_session_map lib (stm_sessions_of st user) new))
          \<subseteq> set (stm_sessions_of st user) \<union> set new"
    by (rule build_session_map_values)
  with assms show ?thesis by (auto simp: save_sessions_ok_iff)
qed

lemma in_window_dated: "in_window lib c s \<Longrightarrow> parse_session_date lib s \<noteq> None"
  by (auto simp: in_window_def split: option.splits)

text \<open>
  C10.  A save drops every session whose \<open>session_date\<close> is missing or does not parse,
  whatever else the session holds, and does so without failing: after a successful save
  every stored session of the user has a date that parses; a store in which every session
  is dated stays so under any save, successful or not, so that a dateless session handed to
  a save is never among the stored sessions; a save fails only on an aware datetime, never
  on a dateless session; the empty store is dated.
\<close>

theorem stm_drops_undated:
  "(fst (save_sessions lib rd now st user new) \<longrightarrow>
      (\<forall>s \<in> set (stm_sessions_of (snd (save_sessions lib rd now st user new)) user).
         parse_session_date lib s \<noteq> None))
   \<and> (stm_all_dated lib st \<longrightarrow> stm_all_dated lib (snd (save_sessions lib rd now st user new)))
   \<and> (stm_all_dated lib st \<longrightarrow> parse_session_date lib s = None \<longrightarrow>
        s \<notin> set (stm_sessions_of (snd (save_sessions lib rd now st user new)) u))
   \<and> ((\<forall>x \<in> set (stm_sessions_of st user) \<union> set new. \<not> aware_date lib x) \<longrightarrow>
        fst (save_sessions lib rd now st user new))
   \<and> stm_all_dated lib empty_storage"
proof -
  let ?st' = "snd (save_sessions lib rd now st user new)"
  have a: "fst (save_sessions lib rd now st user new) \<longrightarrow>
      (\<forall>s \<in> set (stm_sessions_of ?st' user). parse_session_date lib s \<noteq> None)"
    using save_sessions_retention [of lib rd now st user new] in_window_dated by blast
  have b: "stm_all_dated lib st \<longrightarrow> stm_all_dated lib ?st'"
  proof
    assume inv: "stm_all_dated lib st"
    show "stm_all_dated lib ?st'"
      unfolding stm_all_dated_def
    proof (intro allI ballI)
      fix v x assume x: "x \<in> set (stm_sessions_of ?st' v)"
      show "parse_session_date lib x \<noteq> None"
      proof (cases "fst (save_sessions lib rd now st user new) \<and> v = user")
        case True
        with a x show ?thesis by simp
      next
        case False
        with x have "x \<in> set (stm_sessions_of st v)" by (auto simp: stm_sessions_after_save)
        with inv show ?thesis by (simp add: stm_all_dated_def)
      qed
    qed
  qed
  have c: "stm_all_dated lib st \<longrightarrow> parse_session_date lib s = None \<longrightarrow> s \<notin> set (stm_sessions_of ?st' u)"
  proof (intro impI notI)
    assume "stm_all_dated lib st" and none: "parse_session_date lib s = None"
      and mem: "s \<in> set (stm_sessions_of ?st' u)"
    with b have "stm_all_dated lib ?st'" by simp
    then have "\<forall>x \<in> set (stm_sessions_of ?st' u). parse_session_date lib x \<noteq> None"
      unfolding stm_all_dated_def by (rule spec)
    with mem none show False by blast
  qed
  have d: "(\<forall>x \<in> set (stm_sessions_of st user) \<union> set new. \<not> aware_date lib x) \<longrightarrow>
        fst (save_sessions lib rd now st user new)"
    using save_sessions_ok_if_naive by blast
  have e: "stm_all_dated lib empty_storage"
    by (simp add: stm_all_dated_def stm_sessions_of_def empty_storage_def)
  from a b c d e show ?thesis by blast
qed

lemma build_two:
  "map snd (build_session_map std_lib [] [undated_session, plain_session ''2026-11-03'' 70])
     = [undated_session, plain_session ''2026-11-03'' 70]"
  by (simp add: build_session_map_def session_key_def generate_session_id_def undated_session_def
      plain_session_def)

lemma save_two:
  "stm_sessions_of (snd (save_sessions std_lib STM_RETENTION_DAYS noon_4_nov empty_storage ''U_101''
      [undated_session, plain_session ''2026-11-03'' 70])) ''U_101'' = [plain_session ''2026-11-03'' 70]
   \<and> fst (save_sessions std_lib STM_RETENTION_DAYS noon_4_nov empty_storage ''U_101''
      [undated_session, plain_session ''2026-11-03'' 70])"
proof -
  have e: "stm_sessions_of empty_storage ''U_101'' = []"
    by (simp add: stm_sessions_of_def empty_storage_def)
  have w1: "\<not> in_window std_lib c undated_session" for c
    by (simp add: in_window_def parse_undated)
  have w2: "in_window std_lib (noon_4_nov - STM_RETENTION_DAYS * DAY) (plain_session ''2026-11-03'' 70)"
    by (simp add: in_window_def parse_3_nov noon_4_nov_def STM_RETENTION_DAYS_def DAY_def)
  have a1: "\<not> aware_date std_lib undated_session"
    by (simp add: aware_date_def parse_undated)
  have a2: "\<not> aware_date std_lib (plain_session ''2026-11-03'' 70)"
    by (simp add: aware_date_def parse_3_nov)
  show ?thesis
    by (simp add: stm_sessions_after_save save_sessions_ok_iff e build_two w1 w2 a1 a2
        sort_newest_first_short)
qed

theorem stm_drops_undated_witness:
  "stm_all_dated std_lib empty_storage
   \<and> parse_session_date std_lib undated_session = None
   \<and> fst (save_sessions std_lib STM_RETENTION_DAYS noon_4_nov empty_storage ''U_101''
        [undated_session, plain_session ''2026-11-03'' 70])
   \<and> stm_sessions_of (snd (save_sessions std_lib STM_RETENTION_DAYS noon_4_nov empty_storage ''U_101''
        [undated_session, plain_session ''2026-11-03'' 70])) ''U_101'' = [plain_session ''2026-11-03'' 70]
   \<and> undated_session \<notin> set (stm_sessions_of (snd (save_sessions std_lib STM_RETENTION_DAYS noon_4_nov
        empty_storage ''U_101'' [undated_session, plain_session ''2026-11-03'' 70])) ''U_101'')"
  using stm_drops_undated [of std_lib STM_RETENTION_DAYS noon_4_nov empty_storage "''U_101''"
      "[undated_session, plain_session ''2026-11-03'' 70]" undated_session "''U_101''"]
    save_two parse_undated [of std_lib]
  by simp

lemma build_single: "map snd (build_session_map lib [] [x]) = [x]"
  by (simp add: build_session_map_def)

lemma build_same_key:
  "session_key lib a = session_key lib b \<Longrightarrow> map snd (build_session_map lib [a] [b]) = [b]"
  by (simp add: build_session_map_def)

lemma build_diff_key:
  "session_key lib a \<noteq> session_key lib b \<Longrightarrow> map snd (build_session_map lib [a] [b]) = [a, b]"
  by (simp add: build_session_map_def)

lemma build_no_new: "map snd (build_session_map lib [a] []) = [a]"
  by (simp add: build_session_map_def)

lemma stm_empty: "stm_sessions_of empty_storage u = []"
  by (simp add: stm_sessions_of_def empty_storage_def)

lemma filter_through:
  "(\<forall>x \<in> set xs. P x \<longrightarrow> Q x) \<Longrightarrow> filter P xs = filter P (filter Q xs)"
  by (induction xs) auto

text \<open>
  C2 (amended).  Two saves in a row for a user, each supplying a session without an explicit
  \<open>session_id\<close>, the two with the same identity key \<open>(session_date, bedtime, waketime)\<close>,
  the second save returning \<open>True\<close> and its session being the last of its list under its
  key: the two sessions have the same generated id, and the stored record holds under that
  id exactly the second call's session when its date lies inside the retention window at
  the second call, and no entry otherwise.  When no session involved carries an explicit
  id, the same holds for the entries counted by identity key.
\<close>

theorem stm_save_twice:
  assumes first: "st1 = snd (save_sessions lib rd now1 st0 user (pre1 @ s1 # post1))"
      and ok: "fst (save_sessions lib rd now2 st1 user (pre2 @ s2 # post2))"
      and last: "\<forall>s \<in> set post2. session_key lib s \<noteq> session_key lib s2"
      and no_id1: "\<not> truthy_str (session_id s1)"
      and no_id2: "\<not> truthy_str (session_id s2)"
      and same: "identity_key s1 = identity_key s2"
  shows "session_key lib s1 = session_key lib s2
     \<and> entries_with_key lib s2
          (stm_sessions_of (snd (save_sessions lib rd now2 st1 user (pre2 @ s2 # post2))) user)
         = (if in_window lib (now2 - rd * DAY) s2 then [s2] else [])
     \<and> ((\<forall>s \<in> set (stm_sessions_of st0 user) \<union> set (pre1 @ s1 # post1) \<union> set (pre2 @ s2 # post2).
            \<not> truthy_str (session_id s)) \<longrightarrow>
          entries_with_identity s2
            (stm_sessions_of (snd (save_sessions lib rd now2 st1 user (pre2 @ s2 # post2))) user)
           = (if in_window lib (now2 - rd * DAY) s2 then [s2] else []))"
proof -
  let ?stored = "stm_sessions_of (snd (save_sessions lib rd now2 st1 user (pre2 @ s2 # post2))) user"
  let ?r = "if in_window lib (now2 - rd * DAY) s2 then [s2] else []"
  have k: "session_key lib s1 = session_key lib s2"
    using no_id1 no_id2 same by (rule same_identity_same_key)
  have e: "entries_with_key lib s2 ?stored = ?r"
    using ok last by (rule entries_after_save)
  have i: "(\<forall>s \<in> set (stm_sessions_of st0 user) \<union> set (pre1 @ s1 # post1) \<union> set (pre2 @ s2 # post2).
            \<not> truthy_str (session_id s)) \<longrightarrow> entries_with_identity s2 ?stored = ?r"
  proof
    assume none: "\<forall>s \<in> set (stm_sessions_of st0 user) \<union> set (pre1 @ s1 # post1) \<union> set (pre2 @ s2 # post2).
            \<not> truthy_str (session_id s)"
    have "set ?stored \<subseteq> set (stm_sessions_of st1 user) \<union> set (pre2 @ s2 # post2)"
      by (rule stored_subset)
    moreover have "set (stm_sessions_of st1 user) \<subseteq> set (stm_sessions_of st0 user) \<union> set (pre1 @ s1 # post1)"
      unfolding first by (rule stored_subset)
    ultimately have sub: "set ?stored \<subseteq> set (stm_sessions_of st0 user) \<union> set (pre1 @ s1 # post1)
        \<union> set (pre2 @ s2 # post2)"
      by blast
    have imp: "\<forall>x \<in> set ?stored. identity_key x = identity_key s2 \<longrightarrow> session_key lib x = session_key lib s2"
    proof (intro ballI impI)
      fix x assume x: "x \<in> set ?stored" and ix: "identity_key x = identity_key s2"
      from x sub none have "\<not> truthy_str (session_id x)" by blast
      then show "session_key lib x = session_key lib s2"
        using no_id2 ix by (rule same_identity_same_key)
    qed
    have "entries_with_identity s2 ?stored
            = filter (\<lambda>x. identity_key x = identity_key s2) (entries_with_key lib s2 ?stored)"
      unfolding entries_with_identity_def entries_with_key_def
      using imp by (rule filter_through)
    also have "\<dots> = filter (\<lambda>x. identity_key x = identity_key s2) ?r"
      by (simp only: e)
    also have "\<dots> = ?r" by simp
    finally show "entries_with_identity s2 ?stored = ?r" .
  qed
  from k e i show ?thesis by blast
qed

lemma in_window_3_nov:
  "in_window std_lib (noon_4_nov - STM_RETENTION_DAYS * DAY) (plain_session ''2026-11-03'' e)"
  by (simp add: in_window_def parse_3_nov noon_4_nov_def STM_RETENTION_DAYS_def DAY_def)

lemma not_aware_3_nov: "\<not> aware_date std_lib (plain_session ''2026-11-03'' e)"
  by (simp add: aware_date_def parse_3_nov)

lemma save_first_3_nov:
  "save_sessions std_lib STM_RETENTION_DAYS noon_4_nov empty_storage ''U_101'' [plain_session ''2026-11-03'' 70]
     = (True, save_memory_stm (empty_storage\<lparr>access_log := [Read ''U_101'' STM]\<rparr>) ''U_101''
          \<lparr>stored_sessions = [plain_session ''2026-11-03'' 70], stm_last_updated = noon_4_nov, stm_count = 1\<rparr>)"
  by (simp add: save_sessions_unfold stm_empty build_single in_window_3_nov not_aware_3_nov
      sort_newest_first_short) (simp add: empty_storage_def)

theorem stm_save_twice_witness:
  "entries_with_identity (plain_session ''2026-11-03'' 90)
     (stm_sessions_of
        (snd (save_sessions std_lib STM_RETENTION_DAYS noon_4_nov
                (snd (save_sessions std_lib STM_RETENTION_DAYS noon_4_nov empty_storage ''U_101''
                        [plain_session ''2026-11-03'' 70]))
                ''U_101'' [plain_session ''2026-11-03'' 90]))
        ''U_101'')
     = [plain_session ''2026-11-03'' 90]"
proof -
  let ?a = "plain_session ''2026-11-03'' 70" and ?b = "plain_session ''2026-11-03'' 90"
  let ?st1 = "snd (save_sessions std_lib STM_RETENTION_DAYS noon_4_nov empty_storage ''U_101'' [?a])"
  have s1: "stm_sessions_of ?st1 ''U_101'' = [?a]"
    by (simp add: save_first_3_nov stm_sessions_of_def save_memory_stm_def)
  have ok: "fst (save_sessions std_lib STM_RETENTION_DAYS noon_4_nov ?st1 ''U_101'' ([] @ ?b # []))"
    by (simp add: save_sessions_ok_iff [where st = "?st1"] s1 build_same_key key_plain not_aware_3_nov)
  have ids: "\<forall>s \<in> set (stm_sessions_of empty_storage ''U_101'') \<union> set ([] @ ?a # []) \<union> set ([] @ ?b # []).
            \<not> truthy_str (session_id s)"
    by (simp add: stm_empty plain_session_def)
  have idk: "identity_key ?a = identity_key ?b"
    by (simp add: identity_key_def plain_session_def)
  have na: "\<not> truthy_str (session_id ?a)" and nb: "\<not> truthy_str (session_id ?b)"
    by (simp_all add: plain_session_def)
  have "?st1 = snd (save_sessions std_lib STM_RETENTION_DAYS noon_4_nov empty_storage ''U_101'' ([] @ ?a # []))"
    by simp
  from stm_save_twice [OF this ok _ na nb idk] ids in_window_3_nov [of 90]
  show ?thesis by simp
qed

lemma parse_window_1_oct:
  "\<not> in_window std_lib (noon_4_nov - STM_RETENTION_DAYS * DAY) (plain_session ''2026-10-01'' e)
   \<and> \<not> aware_date std_lib (plain_session ''2026-10-01'' e)"
  by (simp add: in_window_def aware_date_def parse_1_oct noon_4_nov_def STM_RETENTION_DAYS_def DAY_def)

text \<open>
  The claim as stated fails for a session older than the retention window: saved twice,
  both saves succeed and the stored record has no entry for its key.
\<close>

theorem stm_save_twice_stale_counterexample:
  "fst (save_sessions std_lib STM_RETENTION_DAYS noon_4_nov empty_storage ''U_101''
          [plain_session ''2026-10-01'' 70])
   \<and> fst (save_sessions std_lib STM_RETENTION_DAYS noon_4_nov
          (snd (save_sessions std_lib STM_RETENTION_DAYS noon_4_nov empty_storage ''U_101''
                  [plain_session ''2026-10-01'' 70]))
          ''U_101'' [plain_session ''2026-10-01'' 70])
   \<and> entries_with_identity (plain_session ''2026-10-01'' 70)
       (stm_sessions_of
          (snd (save_sessions std_lib STM_RETENTION_DAYS noon_4_nov
                  (snd (save_sessions std_lib STM_RETENTION_DAYS noon_4_nov empty_storage ''U_101''
                          [plain_session ''2026-10-01'' 70]))
                  ''U_101'' [plain_session ''2026-10-01'' 70]))
          ''U_101'')
     = []"
proof -
  let ?a = "plain_session ''2026-10-01'' 70"
  let ?st1 = "snd (save_sessions std_lib STM_RETENTION_DAYS noon_4_nov empty_storage ''U_101'' [?a])"
  have ok1: "fst (save_sessions std_lib STM_RETENTION_DAYS noon_4_nov empty_storage ''U_101'' [?a])"
    by (simp add: save_sessions_ok_iff stm_empty build_single parse_window_1_oct)
  have s1: "stm_sessions_of ?st1 ''U_101'' = []"
    using ok1 by (simp add: stm_sessions_after_save stm_empty build_single parse_window_1_oct
        sort_newest_first_short)
  have ok2: "fst (save_sessions std_lib STM_RETENTION_DAYS noon_4_nov ?st1 ''U_101'' [?a])"
    by (simp add: save_sessions_ok_iff [where st = "?st1"] s1 build_single parse_window_1_oct)
  have s2: "stm_sessions_of (snd (save_sessions std_lib STM_RETENTION_DAYS noon_4_nov ?st1 ''U_101'' [?a])) ''U_101'' = []"
    using ok2 by (simp add: stm_sessions_after_save [where st = "?st1"] s1 build_single
        parse_window_1_oct sort_newest_first_short)
  have "entries_with_identity ?a [] = []" by (simp add: entries_with_identity_def)
  with s2 have e: "entries_with_identity ?a
      (stm_sessions_of (snd (save_sessions std_lib STM_RETENTION_DAYS noon_4_nov ?st1 ''U_101'' [?a])) ''U_101'') = []"
    by (simp only:)
  from ok1 ok2 e show ?thesis by blast
qed

text \<open>
  C3.  The retention invariant is lost on a save whose new session carries an ISO timestamp
  ending in \<open>Z\<close>.  A session dated 2026-10-25 is saved on 30 October and kept.  On
  4 November it is older than seven days; a save of a session dated
  \<open>2026-11-03T23:00:00Z\<close> parses that date to an aware datetime, the comparison with the
  naive cutoff raises, the save returns \<open>False\<close> and writes nothing: the stored record
  still holds the session of 25 October, outside the window.
\<close>

theorem stm_retention_lost_on_aware_date:
  "fst (save_sessions std_lib STM_RETENTION_DAYS noon_30_oct empty_storage ''U_101''
          [plain_session ''2026-10-25'' 80])
   \<and> \<not> fst (save_sessions std_lib STM_RETENTION_DAYS noon_4_nov
          (snd (save_sessions std_lib STM_RETENTION_DAYS noon_30_oct empty_storage ''U_101''
                  [plain_session ''2026-10-25'' 80]))
          ''U_101'' [plain_session ''2026-11-03T23:00:00Z'' 80])
   \<and> stm_sessions_of
        (snd (save_sessions std_lib STM_RETENTION_DAYS noon_4_nov
                (snd (save_sessions std_lib STM_RETENTION_DAYS noon_30_oct empty_storage ''U_101''
                        [plain_session ''2026-10-25'' 80]))
                ''U_101'' [plain_session ''2026-11-03T23:00:00Z'' 80]))
        ''U_101''
      = [plain_session ''2026-10-25'' 80]
   \<and> \<not> in_window std_lib (noon_4_nov - STM_RETENTION_DAYS * DAY) (plain_session ''2026-10-25'' 80)"
proof -
  let ?old = "plain_session ''2026-10-25'' 80" and ?z = "plain_session ''2026-11-03T23:00:00Z'' 80"
  let ?st1 = "snd (save_sessions std_lib STM_RETENTION_DAYS noon_30_oct empty_storage ''U_101'' [?old])"
  have w0: "in_window std_lib (noon_30_oct - STM_RETENTION_DAYS * DAY) ?old"
    by (simp add: in_window_def parse_25_oct noon_30_oct_def STM_RETENTION_DAYS_def DAY_def)
  have w1: "\<not> in_window std_lib (noon_4_nov - STM_RETENTION_DAYS * DAY) ?old"
    by (simp add: in_window_def parse_25_oct noon_4_nov_def STM_RETENTION_DAYS_def DAY_def)
  have n0: "\<not> aware_date std_lib ?old"
    by (simp add: aware_date_def parse_25_oct)
  have az: "aware_date std_lib ?z"
    by (simp add: aware_date_def parse_3_nov_Z)
  have ok1: "fst (save_sessions std_lib STM_RETENTION_DAYS noon_30_oct empty_storage ''U_101'' [?old])"
    by (simp add: save_sessions_ok_iff stm_empty build_single n0)
  have s1: "stm_sessions_of ?st1 ''U_101'' = [?old]"
    using ok1 by (simp add: stm_sessions_after_save stm_empty build_single n0 w0 sort_newest_first_short)
  have kd: "session_key std_lib ?old \<noteq> session_key std_lib ?z"
    by (simp add: key_plain)
  have ok2: "\<not> fst (save_sessions std_lib STM_RETENTION_DAYS noon_4_nov ?st1 ''U_101'' [?z])"
    by (simp add: save_sessions_ok_iff [where st = "?st1"] s1 build_diff_key [OF kd] az)
  have s2: "stm_sessions_of (snd (save_sessions std_lib STM_RETENTION_DAYS noon_4_nov ?st1 ''U_101'' [?z])) ''U_101'' = [?old]"
    using ok2 by (simp add: stm_sessions_after_save [where st = "?st1"] s1)
  from ok1 ok2 s2 w1 show ?thesis by blast
qed

section \<open>Properties of the long-term memory\<close>

lemma extract_preferences_frame:
  "k \<noteq> ''preferred_duration'' \<Longrightarrow> k \<noteq> ''preferred_bedtime'' \<Longrightarrow>
   extract_preferences sessions existing k = existing k"
  by (simp add: extract_preferences_def Let_def)

lemma preferences_after_update_trends:
  "preferences_of (snd (update_trends now st user sessions)) user
     = extract_preferences sessions (preferences_of st user)"
  by (simp add: update_trends_def get_memory_ltm_def save_memory_ltm_def preferences_of_def
      existing_or_empty_def map_or_empty_def Let_def)

text \<open>
  C4.  Two trend updates in a row for a user, with any two session lists: the second update
  succeeds, and every preference key other than \<open>preferred_duration\<close> and
  \<open>preferred_bedtime\<close> has after it the value it had before it (and before the first):
  the computed preferences are merged into the stored map, which is never replaced.
\<close>

theorem ltm_preferences_merge:
  assumes "k \<noteq> ''preferred_duration''" and "k \<noteq> ''preferred_bedtime''"
      and "st1 = snd (update_trends now1 st0 user sessions1)"
      and "st2 = snd (update_trends now2 st1 user sessions2)"
  shows "fst (update_trends now2 st1 user sessions2)
     \<and> preferences_of st2 user k = preferences_of st1 user k
     \<and> preferences_of st2 user k = preferences_of st0 user k"
  using assms
  by (simp add: preferences_after_update_trends extract_preferences_frame) (simp add: update_trends_def Let_def split_def)

theorem ltm_preferences_merge_witness:
  "preferences_of
     (snd (update_trends noon_4_nov
        (snd (update_trends noon_30_oct profile_only_storage ''U_101'' [plain_session ''2026-10-25'' 80]))
        ''U_101'' [plain_session ''2026-11-03'' 70, undated_session]))
     ''U_101'' ''profile''
   = Some (JObj [(''age'', JNum 30), (''exercise'', JStr ''daily'')])"
proof -
  have p: "preferences_of profile_only_storage ''U_101'' ''profile''
             = Some (JObj [(''age'', JNum 30), (''exercise'', JStr ''daily'')])"
    by (simp add: preferences_of_def profile_only_storage_def profile_only_ltm_def
        existing_or_empty_def map_or_empty_def empty_storage_def)
  have "''profile'' \<noteq> ''preferred_duration''" and "''profile'' \<noteq> ''preferred_bedtime''" by simp_all
  from ltm_preferences_merge [OF this refl refl, where ?now1.0 = noon_30_oct
      and ?st0.0 = profile_only_storage and user = "''U_101''"
      and ?sessions1.0 = "[plain_session ''2026-10-25'' 80]" and ?now2.0 = noon_4_nov
      and ?sessions2.0 = "[plain_session ''2026-11-03'' 70, undated_session]"]
  have "preferences_of
     (snd (update_trends noon_4_nov
        (snd (update_trends noon_30_oct profile_only_storage ''U_101'' [plain_session ''2026-10-25'' 80]))
        ''U_101'' [plain_session ''2026-11-03'' 70, undated_session]))
     ''U_101'' ''profile'' = preferences_of profile_only_storage ''U_101'' ''profile''"
    by (elim conjE)
  with p show ?thesis by (simp only:)
qed

section \<open>Properties of the duration sub-score\<close>

lemma dso_zero: "duration_score_of 0 = 0"
  by (simp add: duration_score_of_def config_defs)

lemma dso_up: "0 \<le> a \<Longrightarrow> a \<le> b \<Longrightarrow> b \<le> 7 \<Longrightarrow> duration_score_of a \<le> duration_score_of b"
proof -
  assume h: "0 \<le> a" "a \<le> b" "b \<le> 7"
  show ?thesis
  proof (cases "b < 7")
    case True
    with h show ?thesis by (simp add: duration_score_low)
  next
    case False
    with h have b7: "b = 7" by simp
    show ?thesis
    proof (cases "a < 7")
      case True
      with h b7 show ?thesis by (simp add: duration_score_low duration_score_band)
    next
      case False
      with h b7 show ?thesis by simp
    qed
  qed
qed

lemma dso_ramp_down:
  "9 \<le> c \<Longrightarrow> c \<le> MAX_SLEEP_DURATION \<Longrightarrow>
   duration_score_of c = 100 - (c - 9) / (MAX_SLEEP_DURATION - 9) * 100"
proof -
  assume h: "9 \<le> c" "c \<le> MAX_SLEEP_DURATION"
  show ?thesis
  proof (cases "c = 9")
    case True
    then show ?thesis by (simp add: duration_score_band)
  next
    case False
    with h have "9 < c" "c \<le> 16" by (simp_all add: config_defs)
    then show ?thesis by (simp add: duration_score_high config_defs algebra_simps)
  qed
qed

lemma dso_down:
  "9 \<le> c \<Longrightarrow> c \<le> d \<Longrightarrow> d \<le> MAX_SLEEP_DURATION \<Longrightarrow> duration_score_of d \<le> duration_score_of c"
proof -
  assume h: "9 \<le> c" "c \<le> d" "d \<le> MAX_SLEEP_DURATION"
  then have hd: "9 \<le> d" and hc: "c \<le> MAX_SLEEP_DURATION" by simp_all
  have ec: "duration_score_of c = 100 - (c - 9) / (MAX_SLEEP_DURATION - 9) * 100"
    using h(1) hc by (rule dso_ramp_down)
  have ed: "duration_score_of d = 100 - (d - 9) / (MAX_SLEEP_DURATION - 9) * 100"
    using hd h(3) by (rule dso_ramp_down)
  from h(2) show ?thesis unfolding ec ed by (simp add: config_defs)
qed

text \<open>Rounding is monotone and fixes the integers.\<close>

lemma py_round_cases: "py_round x = \<lfloor>x\<rfloor> \<or> py_round x = \<lfloor>x\<rfloor> + 1"
  by (simp add: py_round_def Let_def)

lemma py_round_int: "py_round (of_int n) = n"
  by (simp add: py_round_def Let_def)

lemma py_round_ge_floor: "\<lfloor>x\<rfloor> \<le> py_round x"
  using py_round_cases [of x] by auto

lemma py_round_mono:
  assumes "x \<le> y"
  shows "py_round x \<le> py_round y"
proof (cases "\<lfloor>x\<rfloor> < \<lfloor>y\<rfloor>")
  case True
  have "py_round x \<le> \<lfloor>x\<rfloor> + 1" using py_round_cases [of x] by auto
  also have "\<dots> \<le> \<lfloor>y\<rfloor>" using True by simp
  also have "\<dots> \<le> py_round y" by (rule py_round_ge_floor)
  finally show ?thesis .
next
  case False
  moreover from assms have "\<lfloor>x\<rfloor> \<le> \<lfloor>y\<rfloor>" by (rule floor_mono)
  ultimately have f: "\<lfloor>x\<rfloor> = \<lfloor>y\<rfloor>" by simp
  with assms have d: "x - of_int \<lfloor>x\<rfloor> \<le> y - of_int \<lfloor>x\<rfloor>" by simp
  show ?thesis
    unfolding py_round_def Let_def f [symmetric] using d by auto
qed

lemma py_round_n_mono: "x \<le> y \<Longrightarrow> py_round_n k x \<le> py_round_n k y"
proof -
  assume "x \<le> y"
  then have "x * 10 ^ k \<le> y * 10 ^ k" by simp
  then have "py_round (x * 10 ^ k) \<le> py_round (y * 10 ^ k)" by (rule py_round_mono)
  then have "(of_int (py_round (x * 10 ^ k)) :: rat) \<le> of_int (py_round (y * 10 ^ k))"
    by (simp only: of_int_le_iff)
  then show ?thesis by (simp add: py_round_n_def divide_right_mono)
qed

lemma py_round_n_int: "py_round_n k (of_int n) = of_int n"
proof -
  have "(of_int n :: rat) * 10 ^ k = of_int (n * 10 ^ k)" by simp
  then have "py_round (of_int n * 10 ^ k) = n * 10 ^ k" by (simp only: py_round_int)
  then show ?thesis by (simp add: py_round_n_def)
qed

lemma round2_fix:
  "py_round_n 2 0 = 0" "py_round_n 2 7 = 7" "py_round_n 2 9 = 9" "py_round_n 2 16 = 16"
  using py_round_n_int [of 2 0] py_round_n_int [of 2 7] py_round_n_int [of 2 9]
    py_round_n_int [of 2 16]
  by simp_all

text \<open>What \<open>_score_duration\<close> returns on each of its paths.\<close>

lemma score_duration_plain:
  "score_duration sessions None
     = (if has_durations sessions then duration_score_of (mean_duration sessions) else 0)"
  by (simp add: score_duration_def has_durations_def mean_duration_def Let_def)

lemma score_duration_analysis:
  "duration_analysis a = Some da \<Longrightarrow>
   score_duration sessions (Some a) = duration_score_of (analysis_average da)"
  by (simp add: score_duration_def analysis_average_def)

lemma analyze_duration_average:
  "analysis_average (analyze_duration ss)
     = (if has_durations ss then py_round_n 2 (mean_duration ss) else 0)"
  by (simp add: analyze_duration_def analysis_average_def has_durations_def mean_duration_def Let_def)

lemma has_durations_nonempty: "has_durations ss \<Longrightarrow> ss \<noteq> []"
  by (auto simp: has_durations_def truthy_nums_def)

lemma score_duration_pipeline:
  "ss \<noteq> [] \<Longrightarrow>
   score_duration sessions (Some (analyze lib ss p))
     = (if has_durations ss then duration_score_of (py_round_n 2 (mean_duration ss)) else 0)"
proof -
  assume ne: "ss \<noteq> []"
  then have "duration_analysis (analyze lib ss p) = Some (analyze_duration ss)"
    by (simp add: analyze_def Let_def)
  then have "score_duration sessions (Some (analyze lib ss p))
               = duration_score_of (analysis_average (analyze_duration ss))"
    by (rule score_duration_analysis)
  then show ?thesis by (simp add: analyze_duration_average dso_zero)
qed

text \<open>
  C6.  The duration sub-score \<open>_score_duration\<close> as a function of the mean duration, on each
  of its paths.  Without an analysis it returns 0 when no session has a truthy duration, and
  otherwise, of the mean of the truthy durations: exactly 100 on \<open>[7, 9]\<close>, 0 at mean 0, the
  ramp \<open>mean / 7 * 100\<close> on \<open>[0, 7)\<close> and non-decreasing on \<open>[0, 7]\<close>, the ramp from 100 at
  9 down to 0 at \<open>MAX_SLEEP_DURATION = 16\<close> and non-increasing on \<open>[9, 16]\<close>.  With an
  analysis that has a duration analysis, the same holds of the average that the analysis
  carries (0 when it carries none).  With the analysis that the analyzer computes from a
  session list, as the pipeline passes it, the score is again 100 for a mean in \<open>[7, 9]\<close>,
  0 at mean 0 and when no session has a truthy duration, non-decreasing in the mean on
  \<open>[0, 7]\<close> and non-increasing on \<open>[9, 16]\<close>; the ramps are taken at the mean rounded to two
  decimals, which is what the analyzer stores.  An analysis without a duration analysis
  falls back to the sessions.
\<close>

theorem score_duration_shape:
  "(\<not> has_durations ss \<longrightarrow> score_duration ss None = 0)
   \<and> (has_durations ss \<and> 7 \<le> mean_duration ss \<and> mean_duration ss \<le> 9 \<longrightarrow>
        score_duration ss None = 100)
   \<and> (has_durations ss \<and> mean_duration ss = 0 \<longrightarrow> score_duration ss None = 0)
   \<and> (has_durations ss \<and> 0 \<le> mean_duration ss \<and> mean_duration ss < 7 \<longrightarrow>
        score_duration ss None = mean_duration ss / 7 * 100)
   \<and> (has_durations ss \<and> 9 \<le> mean_duration ss \<and> mean_duration ss \<le> MAX_SLEEP_DURATION \<longrightarrow>
        score_duration ss None
          = 100 - (mean_duration ss - 9) / (MAX_SLEEP_DURATION - 9) * 100)
   \<and> (has_durations ss \<and> has_durations ss' \<and> 0 \<le> mean_duration ss
        \<and> mean_duration ss \<le> mean_duration ss' \<and> mean_duration ss' \<le> 7 \<longrightarrow>
        score_duration ss None \<le> score_duration ss' None)
   \<and> (has_durations ss \<and> has_durations ss' \<and> 9 \<le> mean_duration ss
        \<and> mean_duration ss \<le> mean_duration ss' \<and> mean_duration ss' \<le> MAX_SLEEP_DURATION \<longrightarrow>
        score_duration ss' None \<le> score_duration ss None)
   \<and> (duration_analysis a = Some da \<and> 7 \<le> analysis_average da \<and> analysis_average da \<le> 9 \<longrightarrow>
        score_duration xs (Some a) = 100)
   \<and> (duration_analysis a = Some da \<and> analysis_average da = 0 \<longrightarrow> score_duration xs (Some a) = 0)
   \<and> (duration_analysis a = Some da \<and> 0 \<le> analysis_average da \<and> analysis_average da < 7 \<longrightarrow>
        score_duration xs (Some a) = analysis_average da / 7 * 100)
   \<and> (duration_analysis a = Some da \<and> 9 \<le> analysis_average da
        \<and> analysis_average da \<le> MAX_SLEEP_DURATION \<longrightarrow>
        score_duration xs (Some a)
          = 100 - (analysis_average da - 9) / (MAX_SLEEP_DURATION - 9) * 100)
   \<and> (duration_analysis a = Some da \<and> duration_analysis a' = Some da' \<and> 0 \<le> analysis_average da
        \<and> analysis_average da \<le> analysis_average da' \<and> analysis_average da' \<le> 7 \<longrightarrow>
        score_duration xs (Some a) \<le> score_duration xs' (Some a'))
   \<and> (duration_analysis a = Some da \<and> duration_analysis a' = Some da' \<and> 9 \<le> analysis_average da
        \<and> analysis_average da \<le> analysis_average da'
        \<and> analysis_average da' \<le> MAX_SLEEP_DURATION \<longrightarrow>
        score_duration xs' (Some a') \<le> score_duration xs (Some a))
   \<and> (ss \<noteq> [] \<and> \<not> has_durations ss \<longrightarrow> score_duration xs (Some (analyze lib ss p)) = 0)
   \<and> (has_durations ss \<and> 7 \<le> mean_duration ss \<and> mean_duration ss \<le> 9 \<longrightarrow>
        score_duration xs (Some (analyze lib ss p)) = 100)
   \<and> (has_durations ss \<and> mean_duration ss = 0 \<longrightarrow> score_duration xs (Some (analyze lib ss p)) = 0)
   \<and> (has_durations ss \<and> 0 \<le> mean_duration ss \<and> py_round_n 2 (mean_duration ss) < 7 \<longrightarrow>
        score_duration xs (Some (analyze lib ss p)) = py_round_n 2 (mean_duration ss) / 7 * 100)
   \<and> (has_durations ss \<and> 9 \<le> mean_duration ss \<and> mean_duration ss \<le> MAX_SLEEP_DURATION \<longrightarrow>
        score_duration xs (Some (analyze lib ss p))
          = 100 - (py_round_n 2 (mean_duration ss) - 9) / (MAX_SLEEP_DURATION - 9) * 100)
   \<and> (has_durations ss \<and> has_durations ss' \<and> 0 \<le> mean_duration ss
        \<and> mean_duration ss \<le> mean_duration ss' \<and> mean_duration ss' \<le> 7 \<longrightarrow>
        score_duration xs (Some (analyze lib ss p)) \<le> score_duration xs' (Some (analyze lib ss' p')))
   \<and> (has_durations ss \<and> has_durations ss' \<and> 9 \<le> mean_duration ss
        \<and> mean_duration ss \<le> mean_duration ss' \<and> mean_duration ss' \<le> MAX_SLEEP_DURATION \<longrightarrow>
        score_duration xs' (Some (analyze lib ss' p')) \<le> score_duration xs (Some (analyze lib ss p)))
   \<and> (duration_analysis a = None \<longrightarrow> score_duration ss (Some a) = score_duration ss None)"
proof -
  let ?m = "mean_duration ss" and ?m' = "mean_duration ss'"
  let ?r = "py_round_n 2 (mean_duration ss)" and ?r' = "py_round_n 2 (mean_duration ss')"
  let ?v = "analysis_average da" and ?v' = "analysis_average da'"
  note P = score_duration_plain
  note A = score_duration_analysis
  have Q: "has_durations zs \<Longrightarrow>
        score_duration ys (Some (analyze lib zs q)) = duration_score_of (py_round_n 2 (mean_duration zs))"
    for ys zs q
    using score_duration_pipeline [OF has_durations_nonempty, of zs ys lib q] by simp
  have r0: "0 \<le> ?m \<Longrightarrow> 0 \<le> ?r"
    using py_round_n_mono [of 0 ?m 2] by (simp add: round2_fix)
  have r7: "mean_duration zs \<le> 7 \<Longrightarrow> py_round_n 2 (mean_duration zs) \<le> 7" for zs
    using py_round_n_mono [of "mean_duration zs" 7 2] by (simp add: round2_fix)
  have r7': "7 \<le> ?m \<Longrightarrow> 7 \<le> ?r"
    using py_round_n_mono [of 7 ?m 2] by (simp add: round2_fix)
  have r9: "?m \<le> 9 \<Longrightarrow> ?r \<le> 9"
    using py_round_n_mono [of ?m 9 2] by (simp add: round2_fix)
  have r9': "9 \<le> ?m \<Longrightarrow> 9 \<le> ?r"
    using py_round_n_mono [of 9 ?m 2] by (simp add: round2_fix)
  have r16: "mean_duration zs \<le> MAX_SLEEP_DURATION \<Longrightarrow>
        py_round_n 2 (mean_duration zs) \<le> MAX_SLEEP_DURATION" for zs
    using py_round_n_mono [of "mean_duration zs" 16 2] by (simp add: round2_fix config_defs)
  have rr: "?m \<le> ?m' \<Longrightarrow> ?r \<le> ?r'"
    by (rule py_round_n_mono)
  have c1: "\<not> has_durations ss \<longrightarrow> score_duration ss None = 0"
    by (simp add: P)
  have c2: "has_durations ss \<and> 7 \<le> ?m \<and> ?m \<le> 9 \<longrightarrow> score_duration ss None = 100"
    by (simp add: P duration_score_band)
  have c3: "has_durations ss \<and> ?m = 0 \<longrightarrow> score_duration ss None = 0"
    by (simp add: P dso_zero)
  have c4: "has_durations ss \<and> 0 \<le> ?m \<and> ?m < 7 \<longrightarrow> score_duration ss None = ?m / 7 * 100"
    by (simp add: P duration_score_low)
  have c5: "has_durations ss \<and> 9 \<le> ?m \<and> ?m \<le> MAX_SLEEP_DURATION \<longrightarrow>
        score_duration ss None = 100 - (?m - 9) / (MAX_SLEEP_DURATION - 9) * 100"
    by (simp add: P dso_ramp_down)
  have c6: "has_durations ss \<and> has_durations ss' \<and> 0 \<le> ?m \<and> ?m \<le> ?m' \<and> ?m' \<le> 7 \<longrightarrow>
        score_duration ss None \<le> score_duration ss' None"
    by (simp add: P dso_up)
  have c7: "has_durations ss \<and> has_durations ss' \<and> 9 \<le> ?m \<and> ?m \<le> ?m'
        \<and> ?m' \<le> MAX_SLEEP_DURATION \<longrightarrow> score_duration ss' None \<le> score_duration ss None"
    by (simp add: P dso_down)
  have d1: "duration_analysis a = Some da \<and> 7 \<le> ?v \<and> ?v \<le> 9 \<longrightarrow> score_duration xs (Some a) = 100"
    by (simp add: A duration_score_band)
  have d2: "duration_analysis a = Some da \<and> ?v = 0 \<longrightarrow> score_duration xs (Some a) = 0"
    by (simp add: A dso_zero)
  have d3: "duration_analysis a = Some da \<and> 0 \<le> ?v \<and> ?v < 7 \<longrightarrow>
        score_duration xs (Some a) = ?v / 7 * 100"
    by (simp add: A duration_score_low)
  have d4: "duration_analysis a = Some da \<and> 9 \<le> ?v \<and> ?v \<le> MAX_SLEEP_DURATION \<longrightarrow>
        score_duration xs (Some a) = 100 - (?v - 9) / (MAX_SLEEP_DURATION - 9) * 100"
    by (simp add: A dso_ramp_down)
  have d5: "duration_analysis a = Some da \<and> duration_analysis a' = Some da' \<and> 0 \<le> ?v
        \<and> ?v \<le> ?v' \<and> ?v' \<le> 7 \<longrightarrow> score_duration xs (Some a) \<le> score_duration xs' (Some a')"
    by (simp add: A dso_up)
  have d6: "duration_analysis a = Some da \<and> duration_analysis a' = Some da' \<and> 9 \<le> ?v
        \<and> ?v \<le> ?v' \<and> ?v' \<le> MAX_SLEEP_DURATION \<longrightarrow>
        score_duration xs' (Some a') \<le> score_duration xs (Some a)"
    by (simp add: A dso_down)
  have e1: "ss \<noteq> [] \<and> \<not> has_durations ss \<longrightarrow> score_duration xs (Some (analyze lib ss p)) = 0"
    by (simp add: score_duration_pipeline)
  have e2: "has_durations ss \<and> 7 \<le> ?m \<and> ?m \<le> 9 \<longrightarrow>
        score_duration xs (Some (analyze lib ss p)) = 100"
    using r7' r9 by (simp add: Q duration_score_band)
  have e3: "has_durations ss \<and> ?m = 0 \<longrightarrow> score_duration xs (Some (analyze lib ss p)) = 0"
    by (auto simp: Q round2_fix dso_zero)
  have e4: "has_durations ss \<and> 0 \<le> ?m \<and> ?r < 7 \<longrightarrow>
        score_duration xs (Some (analyze lib ss p)) = ?r / 7 * 100"
    using r0 by (simp add: Q duration_score_low)
  have e5: "has_durations ss \<and> 9 \<le> ?m \<and> ?m \<le> MAX_SLEEP_DURATION \<longrightarrow>
        score_duration xs (Some (analyze lib ss p))
          = 100 - (?r - 9) / (MAX_SLEEP_DURATION - 9) * 100"
    using r9' r16 [of ss] by (simp add: Q dso_ramp_down)
  have e6: "has_durations ss \<and> has_durations ss' \<and> 0 \<le> ?m \<and> ?m \<le> ?m' \<and> ?m' \<le> 7 \<longrightarrow>
        score_duration xs (Some (analyze lib ss p)) \<le> score_duration xs' (Some (analyze lib ss' p'))"
    using r0 rr r7 [of ss'] by (simp add: Q dso_up)
  have e7: "has_durations ss \<and> has_durations ss' \<and> 9 \<le> ?m \<and> ?m \<le> ?m'
        \<and> ?m' \<le> MAX_SLEEP_DURATION \<longrightarrow>
        score_duration xs' (Some (analyze lib ss' p')) \<le> score_duration xs (Some (analyze lib ss p))"
    using r9' rr r16 [of ss'] by (simp add: Q dso_down)
  have g1: "duration_analysis a = None \<longrightarrow> score_duration ss (Some a) = score_duration ss None"
    by (simp add: score_duration_def)
  from c1 c2 c3 c4 c5 c6 c7 d1 d2 d3 d4 d5 d6 e1 e2 e3 e4 e5 e6 e7 g1 show ?thesis
    by (intro conjI)
qed

lemma timed_session_mean:
  "d \<noteq> 0 \<Longrightarrow> has_durations [timed_session d] \<and> mean_duration [timed_session d] = d"
  by (simp add: has_durations_def mean_duration_def truthy_nums_def timed_session_def mean_def)

lemma timed_session_zero: "\<not> has_durations [timed_session 0]"
  by (simp add: has_durations_def truthy_nums_def timed_session_def)

lemma round2_6996: "py_round_n 2 (6996 / 1000) = 7"
  by code_simp

theorem score_duration_shape_witness:
  "score_duration [timed_session 8] None = 100
   \<and> score_duration [timed_session 0] None = 0
   \<and> score_duration [] None = 0
   \<and> score_duration [timed_session 3] None = 3 / 7 * 100
   \<and> score_duration [timed_session 3] None \<le> score_duration [timed_session 6] None
   \<and> score_duration [timed_session 10] None = 100 - (10 - 9) / (MAX_SLEEP_DURATION - 9) * 100
   \<and> score_duration [timed_session 14] None \<le> score_duration [timed_session 10] None
   \<and> score_duration [timed_session (6996 / 1000)] None = 6996 / 1000 / 7 * 100
   \<and> score_duration [] (Some (analyze std_lib [timed_session 8] empty_profile)) = 100
   \<and> score_duration [] (Some (analyze std_lib [timed_session 0] empty_profile)) = 0
   \<and> score_duration [] (Some (analyze std_lib [timed_session 3] empty_profile))
        \<le> score_duration [] (Some (analyze std_lib [timed_session 6] empty_profile))"
proof -
  have nd: "\<not> has_durations []" by (simp add: has_durations_def truthy_nums_def)
  have ne: "[timed_session 0] \<noteq> []" by simp
  note m8 = timed_session_mean [of 8] and m3 = timed_session_mean [of 3]
    and m6 = timed_session_mean [of 6] and m10 = timed_session_mean [of 10]
    and m14 = timed_session_mean [of 14] and mr = timed_session_mean [of "6996 / 1000"]
  have t1: "score_duration [timed_session 8] None = 100"
    using score_duration_shape [of "[timed_session 8]"] m8 by simp
  have t2: "score_duration [timed_session 0] None = 0"
    using score_duration_shape [of "[timed_session 0]"] timed_session_zero by simp
  have t3: "score_duration [] None = 0"
    using score_duration_shape [of "[]"] nd by simp
  have t4: "score_duration [timed_session 3] None = 3 / 7 * 100"
    using score_duration_shape [of "[timed_session 3]"] m3 by simp
  have t5: "score_duration [timed_session 3] None \<le> score_duration [timed_session 6] None"
    using score_duration_shape [of "[timed_session 3]" "[timed_session 6]"] m3 m6 by simp
  have t6: "score_duration [timed_session 10] None = 100 - (10 - 9) / (MAX_SLEEP_DURATION - 9) * 100"
    using score_duration_shape [of "[timed_session 10]"] m10 by (simp add: config_defs)
  have t7: "score_duration [timed_session 14] None \<le> score_duration [timed_session 10] None"
    using score_duration_shape [of "[timed_session 10]" "[timed_session 14]"] m10 m14
    by (simp add: config_defs)
  have t8: "score_duration [timed_session (6996 / 1000)] None = 6996 / 1000 / 7 * 100"
  proof -
    let ?X = "[timed_session (6996 / 1000)]"
    have m: "mean_duration ?X = 6996 / 1000" using mr by simp
    have "has_durations ?X \<and> 0 \<le> mean_duration ?X \<and> mean_duration ?X < 7"
      unfolding m using mr by simp
    with score_duration_shape [of ?X] have "score_duration ?X None = mean_duration ?X / 7 * 100"
      by blast
    then show ?thesis unfolding m .
  qed
  have t9: "score_duration [] (Some (analyze std_lib [timed_session 8] empty_profile)) = 100"
    using score_duration_shape [of "[timed_session 8]" _ _ _ "[]" _ _ _ std_lib empty_profile] m8
    by simp
  have t10: "score_duration [] (Some (analyze std_lib [timed_session 0] empty_profile)) = 0"
    using score_duration_shape [of "[timed_session 0]" _ _ _ "[]" _ _ _ std_lib empty_profile]
      timed_session_zero ne by simp
  have t11: "score_duration [] (Some (analyze std_lib [timed_session 3] empty_profile))
        \<le> score_duration [] (Some (analyze std_lib [timed_session 6] empty_profile))"
    using score_duration_shape [of "[timed_session 3]" "[timed_session 6]" _ _ "[]" _ _ "[]"
        std_lib empty_profile empty_profile] m3 m6
    by simp
  from t1 t2 t3 t4 t5 t6 t7 t8 t9 t10 t11 show ?thesis by (intro conjI)
qed

text \<open>On the pipeline path the average is rounded to two decimals first: a mean of 6.996 scores 100.\<close>

lemma score_duration_rounded_average:
  "score_duration [] (Some (analyze std_lib [timed_session (6996 / 1000)] empty_profile)) = 100"
proof -
  let ?X = "[timed_session (6996 / 1000)]"
  have m: "mean_duration ?X = 6996 / 1000" and h: "has_durations ?X"
    using timed_session_mean [of "6996 / 1000"] by simp_all
  have "score_duration [] (Some (analyze std_lib ?X empty_profile))
          = duration_score_of (py_round_n 2 (mean_duration ?X))"
    using score_duration_pipeline [of ?X "[]" std_lib empty_profile] h by simp
  then show ?thesis unfolding m round2_6996 by (simp add: duration_score_band)
qed

section \<open>Properties of the personalized tips\<close>

lemma exercise_tip_length: "length (exercise_tip p) \<le> 1"
  by (simp add: exercise_tip_def Let_def)

lemma trend_tip_length: "length (trend_tip lib trends) \<le> 1"
  by (simp add: trend_tip_def split: option.splits)

lemma generic_tips_length: "length generic_tips = 3"
  by (simp add: generic_tips_def)

lemma tips_shape:
  "generate_personalized_tips lib a p trends =
     take 6 (take 3 (case issues a of None \<Rightarrow> [] | Some is \<Rightarrow> is)
             @ exercise_tip p @ trend_tip lib trends
             @ (if length (take 3 (case issues a of None \<Rightarrow> [] | Some is \<Rightarrow> is)
                           @ exercise_tip p @ trend_tip lib trends) < 3
                then generic_tips else []))"
  by (simp add: generate_personalized_tips_def Let_def del: length_take take_append)

lemma tips_length_le: "length (generate_personalized_tips lib a p trends) \<le> 6"
  by (simp add: generate_personalized_tips_def Let_def)

lemma tips_length_ge: "3 \<le> length (generate_personalized_tips lib a p trends)"
proof -
  define tips where "tips = take 3 (case issues a of None \<Rightarrow> [] | Some is \<Rightarrow> is)
                 @ exercise_tip p @ trend_tip lib trends"
  have g: "generate_personalized_tips lib a p trends
             = take 6 (if length tips < 3 then tips @ generic_tips else tips)"
    by (simp add: generate_personalized_tips_def Let_def tips_def del: length_take take_append)
  show ?thesis
  proof (cases "length tips < 3")
    case True
    then show ?thesis unfolding g by (simp add: generic_tips_length)
  next
    case False
    then show ?thesis unfolding g by simp
  qed
qed

lemma take_own_prefix: "length zs \<le> m \<Longrightarrow> take (length zs) (take m (zs @ rest)) = zs"
  by (simp add: min_absorb1)

lemma tips_issue_prefix:
  "take (length (take 3 is)) (generate_personalized_tips lib (a\<lparr>issues := Some is\<rparr>) p trends) = take 3 is"
proof -
  define zs where "zs = take 3 is"
  have l: "length zs \<le> 6" by (simp add: zs_def)
  have "generate_personalized_tips lib (a\<lparr>issues := Some is\<rparr>) p trends
          = take 6 (zs @ exercise_tip p @ trend_tip lib trends
                    @ (if length (zs @ exercise_tip p @ trend_tip lib trends) < 3
                       then generic_tips else []))"
    unfolding zs_def tips_shape by simp
  then have "take (length zs) (generate_personalized_tips lib (a\<lparr>issues := Some is\<rparr>) p trends) = zs"
    using take_own_prefix [OF l] by (simp only:)
  then show ?thesis by (simp only: zs_def)
qed

lemma pattern_recommendation_length: "length (pattern_recommendation pat) \<le> 1"
  by (simp add: pattern_recommendation_def)

lemma concat_pattern_length: "length (concat (map pattern_recommendation ps)) \<le> length ps"
proof (induction ps)
  case Nil
  then show ?case by simp
next
  case (Cons a ps)
  have "length (pattern_recommendation a) \<le> 1" by (rule pattern_recommendation_length)
  with Cons show ?case by simp
qed

lemma node_tips:
  "ru_personalized_tips (recommendation_engine_node lib state) =
     (case st_analysis state of
        None \<Rightarrow> []
      | Some a \<Rightarrow>
          generate_personalized_tips lib a
            (let prefs = map_or_empty (ltm_preferences (case st_ltm_data state of None \<Rightarrow> empty_ltm | Some d \<Rightarrow> d));
                 p0 = payload_profile state;
                 p1 = (case prefs ''preferred_duration'' of None \<Rightarrow> p0
                       | Some v \<Rightarrow> p0\<lparr>preferred_duration := Some v\<rparr>)
             in (case prefs ''preferred_bedtime'' of None \<Rightarrow> p1
                 | Some v \<Rightarrow> p1\<lparr>preferred_bedtime := Some v\<rparr>))
            (map_or_empty (ltm_trends (case st_ltm_data state of None \<Rightarrow> empty_ltm | Some d \<Rightarrow> d)))
          @ concat (map pattern_recommendation (state_patterns state)))"
proof (cases "st_analysis state")
  case None
  then show ?thesis by (simp add: recommendation_engine_node_def)
next
  case (Some a)
  have e: "(if xs \<noteq> [] then ys @ xs else ys) = ys @ xs" for xs ys :: "string list" by simp
  have sp: "(case ltm_patterns (case st_ltm_data state of None \<Rightarrow> empty_ltm | Some d \<Rightarrow> d) of
              None \<Rightarrow> [] | Some ps \<Rightarrow> ps) = state_patterns state"
    by (simp add: state_patterns_def empty_ltm_def split: option.splits)
  show ?thesis
    using Some by (simp add: recommendation_engine_node_def Let_def e sp)
qed

lemma tips_exact:
  "generate_personalized_tips lib a p trends =
     take 3 (case issues a of None \<Rightarrow> [] | Some is \<Rightarrow> is)
     @ exercise_tip p @ trend_tip lib trends
     @ (if length (take 3 (case issues a of None \<Rightarrow> [] | Some is \<Rightarrow> is)
                   @ exercise_tip p @ trend_tip lib trends) < 3
        then generic_tips else [])"
proof -
  define tips where "tips = take 3 (case issues a of None \<Rightarrow> [] | Some is \<Rightarrow> is)
                 @ exercise_tip p @ trend_tip lib trends"
  have "length (take 3 (case issues a of None \<Rightarrow> [] | Some is \<Rightarrow> is)) \<le> 3" by simp
  then have l: "length tips \<le> 5"
    using exercise_tip_length [of p] trend_tip_length [of lib trends] by (simp add: tips_def)
  have g: "generate_personalized_tips lib a p trends
             = take 6 (tips @ (if length tips < 3 then generic_tips else []))"
    unfolding tips_shape tips_def by simp
  have "length (tips @ (if length tips < 3 then generic_tips else [])) \<le> 6"
    using l by (simp add: generic_tips_length)
  then have "generate_personalized_tips lib a p trends
             = tips @ (if length tips < 3 then generic_tips else [])"
    unfolding g by (rule take_all)
  then show ?thesis unfolding tips_def by simp
qed

text \<open>
  C9 (amended).  For every analysis, profile and trends, the list that
  \<open>_generate_personalized_tips\<close> returns has between 3 and 6 entries; it is the top-3 issues,
  then at most one exercise tip from the profile, then at most one duration tip from the
  trends, then the three generic tips when fewer than 3 had accumulated; in particular it
  begins with the top-3 issues.  The list that \<open>recommendation_engine_node\<close> attaches to the
  state has at most 6 entries plus one per stored pattern, and at most 6 when the long-term
  memory holds no pattern.
\<close>

theorem tips_capped:
  "length (generate_personalized_tips lib a p trends) \<le> 6
   \<and> 3 \<le> length (generate_personalized_tips lib a p trends)
   \<and> generate_personalized_tips lib a p trends
        = take 3 (case issues a of None \<Rightarrow> [] | Some is \<Rightarrow> is)
          @ exercise_tip p @ trend_tip lib trends
          @ (if length (take 3 (case issues a of None \<Rightarrow> [] | Some is \<Rightarrow> is)
                        @ exercise_tip p @ trend_tip lib trends) < 3
             then generic_tips else [])
   \<and> length (exercise_tip p) \<le> 1 \<and> length (trend_tip lib trends) \<le> 1
   \<and> length generic_tips = 3
   \<and> take (length (take 3 is)) (generate_personalized_tips lib (a\<lparr>issues := Some is\<rparr>) p trends)
        = take 3 is
   \<and> length (ru_personalized_tips (recommendation_engine_node lib state))
        \<le> 6 + length (state_patterns state)
   \<and> (state_patterns state = [] \<longrightarrow>
        length (ru_personalized_tips (recommendation_engine_node lib state)) \<le> 6)"
proof -
  have n: "length (ru_personalized_tips (recommendation_engine_node lib state))
        \<le> 6 + length (state_patterns state)"
  proof (cases "st_analysis state")
    case None
    then show ?thesis by (simp add: node_tips)
  next
    case (Some a)
    then show ?thesis
      using tips_length_le concat_pattern_length [of "state_patterns state"]
      by (simp add: node_tips add_mono)
  qed
  then have "state_patterns state = [] \<longrightarrow>
        length (ru_personalized_tips (recommendation_engine_node lib state)) \<le> 6"
    by auto
  with n tips_length_le tips_length_ge tips_exact [of lib a p trends] exercise_tip_length
    trend_tip_length generic_tips_length tips_issue_prefix
  show ?thesis by (intro conjI)
qed

lemma short_sleeper_tips:
  "ru_personalized_tips (recommendation_engine_node std_lib short_sleeper_state)
     = three_issues
       @ [''Incorporate regular exercise into your routine (3-4 times per week) for better sleep.'',
          ''Your average sleep duration is 5.0 hours. Gradually increase to 7-9 hours for optimal rest.'',
          ''Maintain your consistent bedtime routine'',
          ''Continue tracking for better insights'']"
  by (simp add: node_tips short_sleeper_state_def initial_state_def short_sleeper_ltm_def
      empty_ltm_def map_or_empty_def payload_profile_def issues_only_analysis_def three_issues_def
      generate_personalized_tips_def exercise_tip_def trend_tip_def generic_tips_def
      profile_truthy_def empty_profile_def Let_def
      OPTIMAL_SLEEP_DURATION_MIN_def state_patterns_def both_patterns_def
      pattern_recommendation_def std_lib_def fmt_fixed_def py_round_def pad_left_def
      show_nat.simps digit_char_def)

theorem tips_capped_witness:
  "length (ru_personalized_tips (recommendation_engine_node std_lib
             (short_sleeper_state\<lparr>st_ltm_data := Some empty_ltm\<rparr>))) \<le> 6
   \<and> 3 \<le> length (generate_personalized_tips std_lib (issues_only_analysis []) empty_profile Map.empty)"
proof -
  have "state_patterns (short_sleeper_state\<lparr>st_ltm_data := Some empty_ltm\<rparr>) = []"
    by (simp add: state_patterns_def empty_ltm_def)
  with tips_capped [of std_lib "issues_only_analysis []" empty_profile Map.empty "[]"
      "short_sleeper_state\<lparr>st_ltm_data := Some empty_ltm\<rparr>"]
  show ?thesis by blast
qed

text \<open>
  With three issues, a profile without \<open>exercise\<close>, a stored average duration of 5 hours and
  two stored patterns, the node attaches seven tips.
\<close>

theorem tips_exceed_cap_counterexample:
  "length (ru_personalized_tips (recommendation_engine_node std_lib short_sleeper_state)) = 7"
  by (simp add: short_sleeper_tips three_issues_def)

section \<open>Properties of the memory writer\<close>














section \<open>Properties of validation\<close>

lemma blank_empty: "blank []"
  by (simp add: blank_def)

lemma validate_blank_user:
  "blank user_id \<Longrightarrow> validate_task_request lib task_id user_id pl \<noteq> None"
  by (simp add: validate_task_request_def)

lemma validate_blank_user_message:
  "blank user_id \<Longrightarrow> \<not> blank task_id \<Longrightarrow>
   validate_task_request lib task_id user_id pl = Some ''user_id must be a non-empty string''"
  by (simp add: validate_task_request_def)

lemma lacks_user_id_blank: "lacks_user_id rq \<Longrightarrow> blank (st_user_id (initial_state rq))"
  by (auto simp: lacks_user_id_def initial_state_def blank_empty split: option.splits)

lemma validation_node_rejects:
  assumes "validate_task_request lib (st_task_id state) (st_user_id state) (st_payload state) = Some msg"
  shows "validation_node lib state
           = state\<lparr>st_errors := st_errors state @ [''Validation error: '' @ msg], st_status := ''error''\<rparr>"
  using assms by (simp add: validation_node_def)

lemma rejected_stops:
  assumes "validate_task_request lib (st_task_id state) (st_user_id state) (st_payload state) = Some msg"
  shows "workflow_invoke lib rd now state st = (validation_node lib state, st)"
proof -
  have "should_continue (validation_node lib state) = ''error''"
    by (simp add: validation_node_rejects [OF assms] should_continue_def)
  then show ?thesis by (simp add: workflow_invoke_def Let_def)
qed

text \<open>
  C7.  For every task request whose \<open>user_id\<close> is absent, empty or blank, with any store:
  the response has status \<open>error\<close> and no result, validation routes to the \<open>error\<close> edge, the
  workflow ends with the state that validation returned, in which neither the short-term
  sessions nor the long-term data were fetched, and the store with its access log is what it
  was: no read and no write happened.  When the task id is not blank, the error is the
  validator's message about the user id.
\<close>

theorem missing_user_id_aborts:
  assumes "lacks_user_id rq"
  shows "resp_status (fst (process_task lib rd now rq st)) = ''error''
     \<and> resp_result (fst (process_task lib rd now rq st)) = None
     \<and> snd (process_task lib rd now rq st) = st
     \<and> access_log (snd (process_task lib rd now rq st)) = access_log st
     \<and> should_continue (validation_node lib (initial_state rq)) = ''error''
     \<and> workflow_invoke lib rd now (initial_state rq) st = (validation_node lib (initial_state rq), st)
     \<and> st_stm_sessions (fst (workflow_invoke lib rd now (initial_state rq) st)) = None
     \<and> st_ltm_data (fst (workflow_invoke lib rd now (initial_state rq) st)) = None
     \<and> (\<not> blank (st_task_id (initial_state rq)) \<longrightarrow>
          resp_error (fst (process_task lib rd now rq st))
            = Some ''Validation error: user_id must be a non-empty string'')"
proof -
  let ?s0 = "initial_state rq"
  have b: "blank (st_user_id ?s0)" using assms by (rule lacks_user_id_blank)
  then obtain msg where
    v: "validate_task_request lib (st_task_id ?s0) (st_user_id ?s0) (st_payload ?s0) = Some msg"
    using validate_blank_user [of "st_user_id ?s0" lib "st_task_id ?s0" "st_payload ?s0"] by auto
  note vn = validation_node_rejects [OF v]
  have w: "workflow_invoke lib rd now ?s0 st = (validation_node lib ?s0, st)"
    using v by (rule rejected_stops)
  have sc: "should_continue (validation_node lib ?s0) = ''error''"
    by (simp add: vn should_continue_def)
  have e0: "st_errors ?s0 = []" and m0: "st_stm_sessions ?s0 = None" and l0: "st_ltm_data ?s0 = None"
    by (simp_all add: initial_state_def)
  have p: "process_task lib rd now rq st
         = (\<lparr>resp_task_id = st_task_id ?s0, resp_status = ''error'', resp_result = None,
             resp_error = Some (''Validation error: '' @ msg)\<rparr>, st)"
    by (simp add: process_task_def w vn e0)
  have msg: "\<not> blank (st_task_id ?s0) \<longrightarrow> msg = ''user_id must be a non-empty string''"
    using validate_blank_user_message [OF b, of "st_task_id ?s0" lib "st_payload ?s0"] v by auto
  have f: "st_stm_sessions (fst (workflow_invoke lib rd now ?s0 st)) = None
         \<and> st_ltm_data (fst (workflow_invoke lib rd now ?s0 st)) = None"
    by (simp add: w vn m0 l0)
  from p msg w sc f show ?thesis by simp
qed

theorem missing_user_id_aborts_witness:
  "process_task std_lib STM_RETENTION_DAYS noon_4_nov anonymous_request scored_storage
     = (\<lparr>resp_task_id = ''task_125'', resp_status = ''error'', resp_result = None,
         resp_error = Some ''Validation error: user_id must be a non-empty string''\<rparr>,
        scored_storage)"
proof -
  have l: "lacks_user_id anonymous_request"
    by (simp add: lacks_user_id_def anonymous_request_def)
  have t: "st_task_id (initial_state anonymous_request) = ''task_125''"
    by (simp add: initial_state_def anonymous_request_def)
  have nb: "\<not> blank (st_task_id (initial_state anonymous_request))"
    by (simp add: t blank_def py_isspace_def)
  have id: "resp_task_id (fst (process_task std_lib STM_RETENTION_DAYS noon_4_nov anonymous_request scored_storage))
             = ''task_125''"
    using rejected_stops [of std_lib "initial_state anonymous_request"
        "''user_id must be a non-empty string''" STM_RETENTION_DAYS noon_4_nov scored_storage]
      validate_blank_user_message [OF lacks_user_id_blank [OF l] nb, of std_lib
        "st_payload (initial_state anonymous_request)"]
    by (simp add: process_task_def validation_node_rejects t)
  from missing_user_id_aborts [OF l, of std_lib STM_RETENTION_DAYS noon_4_nov scored_storage] nb id
  show ?thesis
    by (cases "process_task std_lib STM_RETENTION_DAYS noon_4_nov anonymous_request scored_storage")
       (auto intro: task_response.equality)
qed

text \<open>A request that passes validation does reach the store: its first two accesses are the reads of the fetch.\<close>

lemma save_sessions_log:
  "\<exists>xs. access_log (snd (save_sessions lib rd now st user new)) = access_log st @ xs"
  by (simp add: save_sessions_unfold Let_def save_memory_stm_def)

lemma update_trends_log:
  "\<exists>xs. access_log (snd (update_trends now st user sessions)) = access_log st @ xs"
  by (simp add: update_trends_def get_memory_ltm_def save_memory_ltm_def Let_def)

lemma update_recommendations_log:
  "\<exists>xs. access_log (snd (update_recommendations now st user recs score conf tips iss)) = access_log st @ xs"
  by (simp add: update_recommendations_def get_memory_ltm_def save_memory_ltm_def Let_def)

lemma memory_fetch_log:
  "access_log (snd (memory_fetch_node state st))
     = access_log st @ [Read (st_user_id state) STM, Read (st_user_id state) LTM]"
  by (simp add: memory_fetch_node_def get_sessions_def get_memory_stm_def get_memory_ltm_def
      Let_def split_def)

end
